theory Spec2Isabelle
  imports Main "HOL-Library.Word" "HOL-Library.Multiset" "HOL-Library.Product_Lexorder"
begin

section \<open>JavaScript values\<close>

text \<open>
  The values that cross the repository's interfaces: request bodies, JSON payloads and
  the results of \<^verbatim>\<open>JSON.parse\<close>. A string is a list of characters (\<^typ>\<open>string\<close>) and stands
  for well-formed text; numbers are the integers (\<^verbatim>\<open>msgSeq\<close> and millisecond timestamps
  are integers in this repository); an object is its list of own properties in insertion
  order, with distinct keys.
\<close>

type_synonym byte = "8 word"

type_synonym bytes = "byte list"

datatype jsval =
    JUndefined
  | JNull
  | JBool bool
  | JNum int
  | JStr string
  | JArr "jsval list"
  | JObj "(string \<times> jsval) list"

datatype fault =
    InvalidCharacterError
  | OperationError
  | SyntaxError
  | TypeError

text \<open>\<^verbatim>\<open>!v\<close> is false exactly on the truthy values.\<close>

fun truthy :: "jsval \<Rightarrow> bool" where
  "truthy JUndefined = False"
| "truthy JNull = False"
| "truthy (JBool b) = b"
| "truthy (JNum n) = (n \<noteq> 0)"
| "truthy (JStr s) = (s \<noteq> [])"
| "truthy (JArr xs) = True"
| "truthy (JObj kvs) = True"

text \<open>
  \<^verbatim>\<open>v.k\<close> for a key that no prototype defines: a \<^verbatim>\<open>TypeError\<close> on \<^verbatim>\<open>null\<close> and
  \<^verbatim>\<open>undefined\<close>, the own property of an object, \<^verbatim>\<open>undefined\<close> otherwise.
\<close>

fun getProp :: "jsval \<Rightarrow> string \<Rightarrow> fault + jsval" where
  "getProp JUndefined k = Inl TypeError"
| "getProp JNull k = Inl TypeError"
| "getProp (JObj kvs) k = Inr (case map_of kvs k of None \<Rightarrow> JUndefined | Some v \<Rightarrow> v)"
| "getProp v k = Inr JUndefined"

text \<open>\<^verbatim>\<open>a || b\<close> on values.\<close>

definition js_or :: "jsval \<Rightarrow> jsval \<Rightarrow> jsval" where
  "js_or a b = (if truthy a then a else b)"

subsection \<open>Numbers in template literals\<close>

definition digit_char :: "nat \<Rightarrow> char" where
  "digit_char d = ''0123456789'' ! d"

function nat_digits :: "int \<Rightarrow> string" where
  "nat_digits n =
     (if n < 10 then [digit_char (nat n)]
      else nat_digits (n div 10) @ [digit_char (nat (n mod 10))])"
  by pat_completeness auto
termination
  by (relation "measure nat") auto

declare nat_digits.simps [simp del]

text \<open>\<^verbatim>\<open>`${n}`\<close> for an integer \<^verbatim>\<open>n\<close>: decimal digits, with a leading minus sign below zero.\<close>

definition Number_toString :: "int \<Rightarrow> string" where
  "Number_toString n = (if n < 0 then CHR ''-'' # nat_digits (- n) else nat_digits n)"

subsection \<open>Bytes and binary strings\<close>

text \<open>\<^verbatim>\<open>String.fromCharCode(b)\<close> on a byte and \<^verbatim>\<open>s.charCodeAt(i)\<close> stored in a \<^verbatim>\<open>Uint8Array\<close>.\<close>

definition fromCharCode :: "byte \<Rightarrow> char" where
  "fromCharCode b = char_of (unat b)"

definition charCodeAt :: "char \<Rightarrow> byte" where
  "charCodeAt c = of_nat (of_char c)"

section \<open>The platform\<close>

text \<open>
  \<^verbatim>\<open>messageCrypto.js\<close> is written against the browser: Web Crypto's AES-GCM,
  \<^verbatim>\<open>TextEncoder\<close>/\<^verbatim>\<open>TextDecoder\<close>, \<^verbatim>\<open>btoa\<close>/\<^verbatim>\<open>atob\<close> and \<^verbatim>\<open>JSON\<close>. None of it is code of the
  repository, so the functions take it as a parameter. \<^typ>\<open>'k\<close> is the type of AES-GCM
  \<^verbatim>\<open>CryptoKey\<close>s usable for both encryption and decryption.
\<close>

record aes_gcm_params =
  alg_name :: string
  alg_iv :: bytes
  additionalData :: bytes

record 'k platform =
  subtle_encrypt :: "aes_gcm_params \<Rightarrow> 'k \<Rightarrow> bytes \<Rightarrow> bytes"
  subtle_decrypt :: "aes_gcm_params \<Rightarrow> 'k \<Rightarrow> bytes \<Rightarrow> bytes option"
  enc_encode :: "string \<Rightarrow> bytes"
  dec_decode :: "bytes \<Rightarrow> string"
  btoa :: "string \<Rightarrow> string"
  atob :: "string \<Rightarrow> string option"
  JSON_stringify :: "jsval \<Rightarrow> string"
  JSON_parse :: "string \<Rightarrow> jsval option"

text \<open>
  The environment a call reads: the random generator behind \<^verbatim>\<open>crypto.getRandomValues\<close>,
  as the stream of bytes it will produce and the number already drawn, and the reading of
  \<^verbatim>\<open>Date.now()\<close>.
\<close>

record js_env =
  entropy :: "nat \<Rightarrow> byte"
  drawn :: nat
  now :: int

section \<open>messageCrypto.js\<close>

definition toBase64 :: "'k platform \<Rightarrow> bytes \<Rightarrow> string" where
  "toBase64 P bs = btoa P (map fromCharCode bs)"

text \<open>The loop of \<^verbatim>\<open>fromBase64\<close>: \<^verbatim>\<open>arr[i] = bin.charCodeAt(i)\<close> for \<^verbatim>\<open>i\<close> below \<^verbatim>\<open>bin.length\<close>.\<close>

function fromBase64_loop :: "string \<Rightarrow> nat \<Rightarrow> bytes \<Rightarrow> bytes" where
  "fromBase64_loop bin i arr =
     (if i < length bin then fromBase64_loop bin (Suc i) (arr[i := charCodeAt (bin ! i)])
      else arr)"
  by pat_completeness auto
termination
  by (relation "measure (\<lambda>(bin, i, arr). length bin - i)") auto

declare fromBase64_loop.simps [simp del]

definition fromBase64 :: "'k platform \<Rightarrow> string \<Rightarrow> fault + bytes" where
  "fromBase64 P b64 =
     (case atob P b64 of
        None \<Rightarrow> Inl InvalidCharacterError
      | Some bin \<Rightarrow> Inr (fromBase64_loop bin 0 (replicate (length bin) 0)))"

definition randomBytes :: "nat \<Rightarrow> js_env \<Rightarrow> bytes \<times> js_env" where
  "randomBytes len env =
     (map (entropy env) [drawn env ..< drawn env + len], env\<lparr>drawn := drawn env + len\<rparr>)"

record encrypted =
  enc_ciphertext :: string
  enc_iv :: string
  enc_timestamp :: int
  enc_msgSeq :: int

record message =
  msg_from :: string
  msg_to :: string
  msg_sessionId :: string
  msg_ciphertext :: string
  msg_iv :: string
  msg_msgSeq :: int
  msg_timestamp :: jsval

record decrypted =
  dec_from :: string
  dec_to :: string
  dec_sessionId :: string
  dec_msgSeq :: int
  dec_timestamp :: jsval
  dec_content :: jsval

definition plaintextObj :: "string \<Rightarrow> string \<Rightarrow> string \<Rightarrow> int \<Rightarrow> int \<Rightarrow> string \<Rightarrow> jsval" where
  "plaintextObj sessionId from' to' msgSeq timestamp content =
     JObj [(''sessionId'', JStr sessionId), (''from'', JStr from'), (''to'', JStr to'),
           (''msgSeq'', JNum msgSeq), (''timestamp'', JNum timestamp),
           (''content'', JStr content)]"

text \<open>Line 52: \<^verbatim>\<open>const aad = enc.encode(`${sessionId}|${from}|${to}|${msgSeq}`)\<close>.\<close>

definition encryptMessage_aad :: "'k platform \<Rightarrow> string \<Rightarrow> string \<Rightarrow> string \<Rightarrow> int \<Rightarrow> bytes" where
  "encryptMessage_aad P sessionId from' to' msgSeq =
     enc_encode P (sessionId @ ''|'' @ from' @ ''|'' @ to' @ ''|'' @ Number_toString msgSeq)"

definition encryptMessage ::
  "'k platform \<Rightarrow> 'k \<Rightarrow> string \<Rightarrow> string \<Rightarrow> string \<Rightarrow> int \<Rightarrow> string \<Rightarrow> js_env
     \<Rightarrow> encrypted \<times> js_env" where
  "encryptMessage P aesKey sessionId from' to' msgSeq content env =
     (let timestamp = now env;
          plaintextBytes =
            enc_encode P
              (JSON_stringify P (plaintextObj sessionId from' to' msgSeq timestamp content));
          (iv, env') = randomBytes 12 env;
          aad = encryptMessage_aad P sessionId from' to' msgSeq;
          ciphertext =
            subtle_encrypt P
              \<lparr>alg_name = ''AES-GCM'', alg_iv = iv, additionalData = aad\<rparr> aesKey plaintextBytes
      in (\<lparr>enc_ciphertext = toBase64 P ciphertext, enc_iv = toBase64 P iv,
           enc_timestamp = timestamp, enc_msgSeq = msgSeq\<rparr>, env'))"

text \<open>
  Line 82, the same template over the fields destructured from the envelope:
  \<^verbatim>\<open>const { from, to, sessionId, ciphertext, iv, msgSeq, timestamp } = message\<close>.
\<close>

definition decryptMessage_aad :: "'k platform \<Rightarrow> message \<Rightarrow> bytes" where
  "decryptMessage_aad P m =
     enc_encode P
       (msg_sessionId m @ ''|'' @ msg_from m @ ''|'' @ msg_to m @ ''|''
          @ Number_toString (msg_msgSeq m))"

text \<open>
  Lines 94 to 103: \<^verbatim>\<open>JSON.parse(dec.decode(plaintext))\<close> and the object returned. The
  metadata of the result is the envelope's; only \<^verbatim>\<open>timestamp\<close> and \<^verbatim>\<open>content\<close> are read from
  the decrypted object.
\<close>

definition decryptMessage_result :: "'k platform \<Rightarrow> message \<Rightarrow> bytes \<Rightarrow> fault + decrypted" where
  "decryptMessage_result P m plaintext =
     (case JSON_parse P (dec_decode P plaintext) of
        None \<Rightarrow> Inl SyntaxError
      | Some obj \<Rightarrow>
     (case getProp obj ''timestamp'' of
        Inl e \<Rightarrow> Inl e
      | Inr ts \<Rightarrow>
     (case getProp obj ''content'' of
        Inl e \<Rightarrow> Inl e
      | Inr content \<Rightarrow>
          Inr \<lparr>dec_from = msg_from m, dec_to = msg_to m, dec_sessionId = msg_sessionId m,
               dec_msgSeq = msg_msgSeq m, dec_timestamp = js_or ts (msg_timestamp m),
               dec_content = content\<rparr>)))"

text \<open>
  A rejected promise of \<^verbatim>\<open>crypto.subtle.decrypt\<close> (the tag does not verify) is thrown by
  \<^verbatim>\<open>await\<close>: the function returns nothing, the caller sees the fault.
\<close>

definition decryptMessage :: "'k platform \<Rightarrow> 'k \<Rightarrow> message \<Rightarrow> fault + decrypted" where
  "decryptMessage P aesKey m =
     (case fromBase64 P (msg_iv m) of
        Inl e \<Rightarrow> Inl e
      | Inr ivBytes \<Rightarrow>
     (case fromBase64 P (msg_ciphertext m) of
        Inl e \<Rightarrow> Inl e
      | Inr cipherBytes \<Rightarrow>
     (let aad = decryptMessage_aad P m
      in case subtle_decrypt P
                \<lparr>alg_name = ''AES-GCM'', alg_iv = ivBytes, additionalData = aad\<rparr> aesKey
                cipherBytes of
           None \<Rightarrow> Inl OperationError
         | Some plaintext \<Rightarrow> decryptMessage_result P m plaintext)))"

text \<open>
  The envelope a caller assembles from the output of \<^const>\<open>encryptMessage\<close> and the
  metadata it encrypted under; \<^verbatim>\<open>ts\<close> is whatever timestamp the transport hands back.
\<close>

definition envelope :: "string \<Rightarrow> string \<Rightarrow> string \<Rightarrow> int \<Rightarrow> encrypted \<Rightarrow> jsval \<Rightarrow> message" where
  "envelope sessionId from' to' msgSeq e ts =
     \<lparr>msg_from = from', msg_to = to', msg_sessionId = sessionId,
      msg_ciphertext = enc_ciphertext e, msg_iv = enc_iv e, msg_msgSeq = msgSeq,
      msg_timestamp = ts\<rparr>"

text \<open>
  A receiver that decrypts one envelope after another, as \<^verbatim>\<open>handleLoadMessages\<close> does.
  \<^verbatim>\<open>decryptMessage\<close> reads and writes no variable outside its own body, so nothing is
  threaded from one call to the next.
\<close>

definition decryptAll :: "'k platform \<Rightarrow> 'k \<Rightarrow> message list \<Rightarrow> (fault + decrypted) list" where
  "decryptAll P aesKey ms = map (decryptMessage P aesKey) ms"

subsection \<open>What the code relies on from the platform\<close>

text \<open>
  The associated data as the specification words it: the UTF-8 encoding of
  \<^verbatim>\<open>sessionId + "|" + from + "|" + to + "|" + msgSeq\<close>.
\<close>

definition associatedData_spec :: "'k platform \<Rightarrow> string \<Rightarrow> string \<Rightarrow> string \<Rightarrow> int \<Rightarrow> bytes" where
  "associatedData_spec P sessionId from' to' msgSeq =
     enc_encode P (concat [sessionId, ''|'', from', ''|'', to', ''|'', Number_toString msgSeq])"

text \<open>AES-GCM decrypts what it encrypted, under the same key, IV and associated data.\<close>

definition aead_correct :: "'k platform \<Rightarrow> bool" where
  "aead_correct P =
     (\<forall>params k pt. subtle_decrypt P params k (subtle_encrypt P params k pt) = Some pt)"

text \<open>
  The tag covers the associated data: under the same key and IV, a ciphertext does not
  verify against associated data other than its own.
\<close>

definition aead_binds_aad :: "'k platform \<Rightarrow> bool" where
  "aead_binds_aad P =
     (\<forall>params params' k pt.
        alg_iv params' = alg_iv params \<and> additionalData params' \<noteq> additionalData params
          \<longrightarrow> subtle_decrypt P params' k (subtle_encrypt P params k pt) = None)"

text \<open>
  \<^verbatim>\<open>atob\<close> decodes what \<^verbatim>\<open>btoa\<close> encoded, \<^verbatim>\<open>TextDecoder\<close> what \<^verbatim>\<open>TextEncoder\<close> encoded, and
  \<^verbatim>\<open>JSON.parse\<close> reads back the object that \<^const>\<open>encryptMessage\<close> stringifies.
\<close>

definition base64_correct :: "'k platform \<Rightarrow> bool" where
  "base64_correct P = (\<forall>s. atob P (btoa P s) = Some s)"

definition utf8_correct :: "'k platform \<Rightarrow> bool" where
  "utf8_correct P = (\<forall>s. dec_decode P (enc_encode P s) = s)"

definition json_correct :: "'k platform \<Rightarrow> bool" where
  "json_correct P =
     (\<forall>sid f t seq ts c.
        JSON_parse P (JSON_stringify P (plaintextObj sid f t seq ts c))
          = Some (plaintextObj sid f t seq ts c))"

definition platform_laws :: "'k platform \<Rightarrow> bool" where
  "platform_laws P =
     (aead_correct P \<and> base64_correct P \<and> utf8_correct P \<and> json_correct P)"

section \<open>The backend\<close>

text \<open>
  A response is \<^verbatim>\<open>res.status(n).json(x)\<close>, or \<^verbatim>\<open>res.status(n).json({ error: msg })\<close>.
  \<^verbatim>\<open>res.json(x)\<close> alone has status 200.
\<close>

datatype 'a reply = Json nat 'a | Error nat string

text \<open>The payload the login route signs into the token: \<^verbatim>\<open>{ userId, username }\<close>.\<close>

record jwt_user =
  userId :: string
  username :: string

record request =
  req_headers :: "string \<rightharpoonup> string"
  req_body :: jsval

text \<open>\<^verbatim>\<open>const { a, b } = v\<close>: a \<^verbatim>\<open>TypeError\<close> on \<^verbatim>\<open>null\<close> and \<^verbatim>\<open>undefined\<close>, the properties otherwise.\<close>

fun destructure :: "jsval \<Rightarrow> (string \<Rightarrow> jsval) option" where
  "destructure JUndefined = None"
| "destructure JNull = None"
| "destructure (JObj kvs) = Some (\<lambda>k. case map_of kvs k of None \<Rightarrow> JUndefined | Some v \<Rightarrow> v)"
| "destructure v = Some (\<lambda>k. JUndefined)"

text \<open>\<^verbatim>\<open>typeof v === 'number'\<close>.\<close>

fun is_number :: "jsval \<Rightarrow> bool" where
  "is_number (JNum n) = True"
| "is_number v = False"

subsection \<open>authenticateToken\<close>

text \<open>\<^verbatim>\<open>s.split(sep)\<close> for a separator of one character.\<close>

fun split_on :: "char \<Rightarrow> string \<Rightarrow> string list" where
  "split_on sep [] = [[]]"
| "split_on sep (c # cs) =
     (if c = sep then [] # split_on sep cs
      else (case split_on sep cs of [] \<Rightarrow> [[c]] | p # ps \<Rightarrow> (c # p) # ps))"

text \<open>\<^verbatim>\<open>a || b\<close> on header values, where a header that is absent is \<^verbatim>\<open>undefined\<close>.\<close>

definition header_or :: "string option \<Rightarrow> string option \<Rightarrow> string option" where
  "header_or a b = (case a of None \<Rightarrow> b | Some s \<Rightarrow> if s = [] then b else Some s)"

text \<open>
  The middleware of both routers. \<^verbatim>\<open>jwt.verify\<close> with the server's secret is the parameter
  \<^verbatim>\<open>verify\<close>: the decoded payload, or nothing when it throws. \<^verbatim>\<open>Inl (n, e)\<close> is the reply
  \<^verbatim>\<open>res.status(n).json({ error: e })\<close>, \<^verbatim>\<open>Inr user\<close> is \<^verbatim>\<open>next()\<close> with \<^verbatim>\<open>req.user = user\<close>.
\<close>

definition authenticateToken ::
  "(string \<Rightarrow> jwt_user option) \<Rightarrow> (string \<rightharpoonup> string) \<Rightarrow> (nat \<times> string) + jwt_user" where
  "authenticateToken verify headers =
     (case header_or (headers ''authorization'') (headers ''Authorization'') of
        None \<Rightarrow> Inl (401, ''Missing Authorization header'')
      | Some authHeader \<Rightarrow>
          if authHeader = [] then Inl (401, ''Missing Authorization header'')
          else (case split_on CHR '' '' authHeader of
                  p # token # ps \<Rightarrow>
                    if token = [] then Inl (401, ''Invalid Authorization header'')
                    else (case verify token of
                            None \<Rightarrow> Inl (401, ''Invalid or expired token'')
                          | Some decoded \<Rightarrow> Inr decoded)
                | _ \<Rightarrow> Inl (401, ''Invalid Authorization header'')))"

subsection \<open>routes/kx.js: the in-memory key-exchange transport\<close>

record kx_message =
  kx_id :: string
  kx_from :: string
  kx_to :: jsval
  kx_messageType :: jsval
  kx_payload :: jsval
  kx_createdAt :: string

text \<open>
  What a call of \<^verbatim>\<open>/kx/send\<close> reads from outside: \<^verbatim>\<open>Date.now()\<close>, the digits of
  \<^verbatim>\<open>Math.random().toString(16).slice(2)\<close> and \<^verbatim>\<open>new Date().toISOString()\<close>.
\<close>

record send_env =
  send_now :: int
  send_random :: string
  send_iso :: string

definition kx_send ::
  "send_env \<Rightarrow> jwt_user \<Rightarrow> jsval \<Rightarrow> kx_message list \<Rightarrow> jsval reply \<times> kx_message list" where
  "kx_send env user body kxMessages =
     (case destructure body of
        None \<Rightarrow> (Error 500 ''Internal server error in /kx/send'', kxMessages)
      | Some b \<Rightarrow>
          (let to' = b ''to''; messageType = b ''messageType''; payload = b ''payload''
           in if \<not> truthy to' \<or> \<not> truthy messageType \<or> \<not> truthy payload
              then (Error 400 ''to, messageType, and payload are required'', kxMessages)
              else
                (let msg =
                       \<lparr>kx_id = Number_toString (send_now env) @ send_random env,
                        kx_from = username user, kx_to = to', kx_messageType = messageType,
                        kx_payload = payload, kx_createdAt = send_iso env\<rparr>
                 in (Json 200 (JObj [(''message'', JStr ''Message sent''),
                                     (''id'', JStr (kx_id msg))]),
                     kxMessages @ [msg]))))"

text \<open>
  The filter of \<^verbatim>\<open>/kx/inbox\<close>. \<^verbatim>\<open>toLowerCase\<close> is the parameter \<^verbatim>\<open>lower\<close>.
\<close>

definition inbox_match :: "(string \<Rightarrow> string) \<Rightarrow> string \<Rightarrow> kx_message \<Rightarrow> bool" where
  "inbox_match lower usernameLower m =
     (case kx_to m of
        JStr t \<Rightarrow> t \<noteq> [] \<and> lower t = usernameLower
      | _ \<Rightarrow> False)"

text \<open>\<^verbatim>\<open>kxMessages.findIndex((m) => m.id === id)\<close>, with \<^verbatim>\<open>None\<close> for \<^verbatim>\<open>-1\<close>.\<close>

fun findIndex_id :: "string \<Rightarrow> kx_message list \<Rightarrow> nat option" where
  "findIndex_id i [] = None"
| "findIndex_id i (m # ms) =
     (if kx_id m = i then Some 0 else map_option Suc (findIndex_id i ms))"

text \<open>\<^verbatim>\<open>kxMessages.splice(idx, 1)\<close>.\<close>

definition splice1 :: "nat \<Rightarrow> 'a list \<Rightarrow> 'a list" where
  "splice1 idx xs = take idx xs @ drop (Suc idx) xs"

text \<open>The loop that removes the delivered messages, one \<^verbatim>\<open>findIndex\<close> and \<^verbatim>\<open>splice\<close> each.\<close>

fun remove_delivered :: "kx_message list \<Rightarrow> kx_message list \<Rightarrow> kx_message list" where
  "remove_delivered [] kxMessages = kxMessages"
| "remove_delivered (msg # userMessages) kxMessages =
     remove_delivered userMessages
       (case findIndex_id (kx_id msg) kxMessages of
          None \<Rightarrow> kxMessages
        | Some idx \<Rightarrow> splice1 idx kxMessages)"

definition kx_inbox ::
  "(string \<Rightarrow> string) \<Rightarrow> jwt_user \<Rightarrow> kx_message list
     \<Rightarrow> kx_message list reply \<times> kx_message list" where
  "kx_inbox lower user kxMessages =
     (let usernameLower = lower (username user);
          userMessages = filter (inbox_match lower usernameLower) kxMessages
      in (Json 200 userMessages, remove_delivered userMessages kxMessages))"

text \<open>The two routes behind the middleware.\<close>

definition kx_send_route ::
  "(string \<Rightarrow> jwt_user option) \<Rightarrow> send_env \<Rightarrow> request \<Rightarrow> kx_message list
     \<Rightarrow> jsval reply \<times> kx_message list" where
  "kx_send_route verify env req kxMessages =
     (case authenticateToken verify (req_headers req) of
        Inl (n, e) \<Rightarrow> (Error n e, kxMessages)
      | Inr user \<Rightarrow> kx_send env user (req_body req) kxMessages)"






subsection \<open>models/Message.js and routes/messages.js\<close>

text \<open>
  A stored document of the \<^verbatim>\<open>Message\<close> model: the seven paths of the schema, the \<^verbatim>\<open>_id\<close>,
  and the two timestamps of \<^verbatim>\<open>{ timestamps: true }\<close>. Dates are milliseconds.
\<close>

record message_doc =
  doc_id :: string
  doc_sessionId :: string
  doc_from :: string
  doc_to :: string
  doc_ciphertext :: string
  doc_iv :: string
  doc_msgSeq :: int
  doc_timestamp :: int
  doc_createdAt :: int
  doc_updatedAt :: int

text \<open>
  What Mongoose and the clock contribute to a \<^verbatim>\<open>save\<close>: the cast of a value to the schema
  type \<^verbatim>\<open>String\<close> (nothing on a \<^verbatim>\<open>CastError\<close>), \<^verbatim>\<open>new Date(v)\<close> (nothing for an invalid
  date, which does not validate), \<^verbatim>\<open>new Date()\<close>, and the fresh \<^verbatim>\<open>_id\<close>.
\<close>

record mongoose =
  castString :: "jsval \<Rightarrow> string option"
  newDate :: "jsval \<Rightarrow> int option"
  dateNow :: int
  newId :: string

text \<open>
  \<^verbatim>\<open>new Message({...}).save()\<close> against the schema: every \<^verbatim>\<open>String\<close> path is cast and
  \<^verbatim>\<open>required\<close>, which an empty string does not satisfy; \<^verbatim>\<open>msgSeq\<close> is a \<^verbatim>\<open>Number\<close>;
  \<^verbatim>\<open>timestamp\<close> is a \<^verbatim>\<open>Date\<close>. Nothing is stored when validation fails.
\<close>

definition Message_save ::
  "mongoose \<Rightarrow> jsval \<Rightarrow> string \<Rightarrow> jsval \<Rightarrow> jsval \<Rightarrow> jsval \<Rightarrow> jsval \<Rightarrow> int option
     \<Rightarrow> message_doc option" where
  "Message_save M sessionId from' to' ciphertext iv msgSeq timestamp =
     (case (castString M sessionId, castString M to', castString M ciphertext,
            castString M iv, msgSeq, timestamp) of
        (Some s, Some t, Some c, Some i, JNum n, Some d) \<Rightarrow>
          if s = [] \<or> from' = [] \<or> t = [] \<or> c = [] \<or> i = [] then None
          else Some \<lparr>doc_id = newId M, doc_sessionId = s, doc_from = from', doc_to = t,
                     doc_ciphertext = c, doc_iv = i, doc_msgSeq = n, doc_timestamp = d,
                     doc_createdAt = dateNow M, doc_updatedAt = dateNow M\<rparr>
      | _ \<Rightarrow> None)"

definition messages_send ::
  "mongoose \<Rightarrow> jwt_user \<Rightarrow> jsval \<Rightarrow> message_doc list \<Rightarrow> jsval reply \<times> message_doc list" where
  "messages_send M user body stored =
     (case destructure body of
        None \<Rightarrow> (Error 500 ''Internal server error in /messages/send'', stored)
      | Some b \<Rightarrow>
          (let sessionId = b ''sessionId''; to' = b ''to''; ciphertext = b ''ciphertext'';
               iv = b ''iv''; msgSeq = b ''msgSeq''; timestamp = b ''timestamp''
           in if \<not> truthy sessionId \<or> \<not> truthy to' \<or> \<not> truthy ciphertext \<or> \<not> truthy iv
                   \<or> \<not> is_number msgSeq
              then (Error 400 ''sessionId, to, ciphertext, iv and numeric msgSeq are required'',
                    stored)
              else
                (let from' = username user
                 in case Message_save M sessionId from' to' ciphertext iv msgSeq
                           (if truthy timestamp then newDate M timestamp else Some (dateNow M)) of
                      None \<Rightarrow> (Error 500 ''Internal server error in /messages/send'', stored)
                    | Some message \<Rightarrow>
                        (Json 201 (JObj [(''message'', JStr ''Encrypted message stored'')]),
                         stored @ [message]))))"

definition messages_send_route ::
  "(string \<Rightarrow> jwt_user option) \<Rightarrow> mongoose \<Rightarrow> request \<Rightarrow> message_doc list
     \<Rightarrow> jsval reply \<times> message_doc list" where
  "messages_send_route verify M req stored =
     (case authenticateToken verify (req_headers req) of
        Inl (n, e) \<Rightarrow> (Error n e, stored)
      | Inr user \<Rightarrow> messages_send M user (req_body req) stored)"

text \<open>The object each document is mapped to before it is returned.\<close>

record safe_message =
  out_from :: string
  out_to :: string
  out_sessionId :: string
  out_ciphertext :: string
  out_iv :: string
  out_msgSeq :: int
  out_timestamp :: int

definition safeMessage :: "message_doc \<Rightarrow> safe_message" where
  "safeMessage m =
     \<lparr>out_from = doc_from m, out_to = doc_to m, out_sessionId = doc_sessionId m,
      out_ciphertext = doc_ciphertext m, out_iv = doc_iv m, out_msgSeq = doc_msgSeq m,
      out_timestamp = doc_timestamp m\<rparr>"

text \<open>
  The query \<^verbatim>\<open>{ sessionId, $or: [{ from: me, to: peer }, { from: peer, to: me }] }\<close>.
\<close>

definition criteria :: "string \<Rightarrow> string \<Rightarrow> string \<Rightarrow> message_doc \<Rightarrow> bool" where
  "criteria me peer sessionId m =
     (doc_sessionId m = sessionId
      \<and> (doc_from m = me \<and> doc_to m = peer \<or> doc_from m = peer \<and> doc_to m = me))"

text \<open>
  \<^verbatim>\<open>Message.find(criteria).sort({ msgSeq: 1, timestamp: 1 })\<close>: the matching documents in
  ascending order of \<^verbatim>\<open>msgSeq\<close>, then of \<^verbatim>\<open>timestamp\<close>.
\<close>

definition Message_find_sorted :: "(message_doc \<Rightarrow> bool) \<Rightarrow> message_doc list \<Rightarrow> message_doc list" where
  "Message_find_sorted crit stored =
     sort_key (\<lambda>m. (doc_msgSeq m, doc_timestamp m)) (filter crit stored)"

definition messages_conversation ::
  "jwt_user \<Rightarrow> string \<Rightarrow> string \<Rightarrow> message_doc list \<Rightarrow> safe_message list reply" where
  "messages_conversation user peerUsername sessionId stored =
     (let me = username user; peer = peerUsername
      in if peer = [] \<or> sessionId = []
         then Error 400 ''peerUsername and sessionId are required''
         else
           (let messages = Message_find_sorted (criteria me peer sessionId) stored;
                safeMessages = map safeMessage messages
            in Json 200 safeMessages))"

section \<open>Dashboard: the inbox of the key exchange\<close>

text \<open>
  \<^verbatim>\<open>handleCheckInbox\<close> of the dashboard component, with the state it reads and writes: the
  server's store behind \<^verbatim>\<open>kxAPI\<close>, and the component's \<^verbatim>\<open>kxContext\<close> and \<^verbatim>\<open>kxLog\<close>. The
  component holds one context at a time. \<^typ>\<open>'v\<close> is the type of the values the
  dashboard only passes on: keys, transcript hashes, nonces, the initiator's private
  context.
\<close>

datatype kx_role = Initiator | Responder

record 'v kx_context =
  ctx_role :: kx_role
  ctx_peer :: string
  ctx_keyInitBody :: jsval
  ctx_initContext :: "'v option"
  ctx_sessionId :: jsval
  ctx_aesKey :: "'v option"
  ctx_transcriptHash :: "'v option"
  ctx_nonceA :: "'v option"
  ctx_nonceB :: "'v option"

record 'v session_context =
  sc_aesKey :: 'v
  sc_transcriptHash :: 'v
  sc_nonceA :: 'v
  sc_nonceB :: 'v

text \<open>
  The functions of \<^verbatim>\<open>utils/keyExchange\<close> and \<^verbatim>\<open>authAPI.getPublicKey\<close>, which the dashboard
  imports. Each is awaited and may throw; \<^verbatim>\<open>Inl\<close> carries the message of the error.
\<close>

record 'v kx_ops =
  getPublicKey :: "string \<Rightarrow> string + jsval"
  processKeyInitAndCreateResp ::
    "jsval \<Rightarrow> jsval \<Rightarrow> jsval \<Rightarrow> string \<Rightarrow> string + (jsval \<times> jsval \<times> 'v session_context)"
  processKeyRespAndDeriveKey ::
    "jsval \<Rightarrow> jsval \<Rightarrow> jsval \<Rightarrow> jsval \<Rightarrow> 'v option \<Rightarrow> string + ('v \<times> jsval \<times> 'v)"
  createKeyConfirm ::
    "string \<Rightarrow> jsval \<Rightarrow> string \<Rightarrow> string \<Rightarrow> 'v option \<Rightarrow> 'v option \<Rightarrow> string + jsval"
  decryptAndVerifyKeyConfirm :: "jsval \<Rightarrow> 'v option \<Rightarrow> 'v option \<Rightarrow> string + unit"

text \<open>
  What the browser session holds and reads: the username and the token of
  \<^verbatim>\<open>localStorage\<close>, \<^verbatim>\<open>new Date().toLocaleTimeString()\<close>, and the string a template literal
  makes of a value.
\<close>

record client_env =
  ce_username :: string
  ce_token :: string
  ce_time :: string
  ce_toString :: "jsval \<Rightarrow> string"

text \<open>
  The server as the dashboard reaches it: \<^verbatim>\<open>jwt.verify\<close>, \<^verbatim>\<open>toLowerCase\<close>, and what the
  \<^verbatim>\<open>n\<close>-th call of \<^verbatim>\<open>/kx/send\<close> reads from its clock and random generator.
\<close>

record server_env =
  se_verify :: "string \<Rightarrow> jwt_user option"
  se_lower :: "string \<Rightarrow> string"
  se_send_env :: "nat \<Rightarrow> send_env"

record 'v world =
  w_kxMessages :: "kx_message list"
  w_sends :: nat
  w_kxContext :: "'v kx_context option"
  w_kxLog :: "string list"

text \<open>
  A step of an \<^verbatim>\<open>async\<close> function: it changes the world and returns, or throws the message
  of an error. What it changed before it threw stays changed.
\<close>

type_synonym ('v, 'a) act = "'v world \<Rightarrow> (string + 'a) \<times> 'v world"

definition done_with :: "'a \<Rightarrow> ('v, 'a) act" where
  "done_with x w = (Inr x, w)"

definition await :: "string + 'a \<Rightarrow> ('v, 'a) act" where
  "await r w = (r, w)"

definition and_then :: "('v, 'a) act \<Rightarrow> ('a \<Rightarrow> ('v, 'b) act) \<Rightarrow> ('v, 'b) act" where
  "and_then m f w = (case m w of (Inl e, w') \<Rightarrow> (Inl e, w') | (Inr x, w') \<Rightarrow> f x w')"

text \<open>\<^verbatim>\<open>setKxLog((prev) => [`${time}: ${msg}`, ...prev].slice(0, 20))\<close>.\<close>

definition addLog :: "client_env \<Rightarrow> string \<Rightarrow> ('v, unit) act" where
  "addLog ce msg w = (Inr (), w\<lparr>w_kxLog := take 20 ((ce_time ce @ '': '' @ msg) # w_kxLog w)\<rparr>)"

definition setKxContext :: "'v kx_context \<Rightarrow> ('v, unit) act" where
  "setKxContext c w = (Inr (), w\<lparr>w_kxContext := Some c\<rparr>)"

text \<open>Reading a property of a value that may be \<^verbatim>\<open>null\<close> or \<^verbatim>\<open>undefined\<close>.\<close>

definition property :: "jsval \<Rightarrow> string \<Rightarrow> string + jsval" where
  "property v k = (case getProp v k of Inl e \<Rightarrow> Inl ''TypeError'' | Inr x \<Rightarrow> Inr x)"

text \<open>
  The request interceptor of \<^verbatim>\<open>services/api\<close> adds the token; a reply outside 2xx makes
  axios throw.
\<close>

definition api_headers :: "client_env \<Rightarrow> (string \<rightharpoonup> string)" where
  "api_headers ce = [''authorization'' \<mapsto> ''Bearer '' @ ce_token ce]"

definition axios_result :: "'a reply \<Rightarrow> string + 'a" where
  "axios_result r =
     (case r of
        Json n x \<Rightarrow> Inr x
      | Error n e \<Rightarrow> Inl (''Request failed with status code '' @ Number_toString (int n)))"

definition kxAPI_sendMessage ::
  "server_env \<Rightarrow> client_env \<Rightarrow> string \<Rightarrow> string \<Rightarrow> jsval \<Rightarrow> ('v, jsval) act" where
  "kxAPI_sendMessage se ce to' messageType payload w =
     (let req = \<lparr>req_headers = api_headers ce,
                 req_body = JObj [(''to'', JStr to'), (''messageType'', JStr messageType),
                                  (''payload'', payload)]\<rparr>;
          (r, kxMessages') =
            kx_send_route (se_verify se) (se_send_env se (w_sends w)) req (w_kxMessages w)
      in (axios_result r, w\<lparr>w_kxMessages := kxMessages', w_sends := Suc (w_sends w)\<rparr>))"


text \<open>\<^verbatim>\<open>kxContext && kxContext.role === r\<close>.\<close>

definition has_role :: "'v kx_context option \<Rightarrow> kx_role \<Rightarrow> bool" where
  "has_role kxContext r = (case kxContext of None \<Rightarrow> False | Some c \<Rightarrow> ctx_role c = r)"

text \<open>The four branches of the loop body that process a message.\<close>

definition on_KEY_INIT ::
  "'v kx_ops \<Rightarrow> server_env \<Rightarrow> client_env \<Rightarrow> kx_message \<Rightarrow> ('v, unit) act" where
  "on_KEY_INIT ops se ce msg =
     (case destructure (kx_payload msg) of
        None \<Rightarrow> await (Inl ''TypeError'')
      | Some p \<Rightarrow>
          (let body = p ''body''; signature = p ''signature''
           in and_then (addLog ce (''Received KEY_INIT from '' @ kx_from msg)) (\<lambda>_.
              and_then (await (getPublicKey ops (kx_from msg))) (\<lambda>initiatorInfo.
              and_then (await (property initiatorInfo ''publicKey'')) (\<lambda>publicKey.
              and_then (await (processKeyInitAndCreateResp ops body signature publicKey
                                 (ce_username ce))) (\<lambda>(respBody, respSig, sessionContext).
              and_then (await (property body ''sessionId'')) (\<lambda>sessionId.
              and_then (setKxContext
                          \<lparr>ctx_role = Responder, ctx_peer = kx_from msg, ctx_keyInitBody = body,
                           ctx_initContext = None, ctx_sessionId = sessionId,
                           ctx_aesKey = Some (sc_aesKey sessionContext),
                           ctx_transcriptHash = Some (sc_transcriptHash sessionContext),
                           ctx_nonceA = Some (sc_nonceA sessionContext),
                           ctx_nonceB = Some (sc_nonceB sessionContext)\<rparr>) (\<lambda>_.
              and_then (kxAPI_sendMessage se ce (kx_from msg) ''KEY_RESP''
                          (JObj [(''body'', respBody), (''signature'', respSig)])) (\<lambda>_.
              addLog ce ''Processed KEY_INIT, sent KEY_RESP'')))))))))"

definition on_KEY_RESP ::
  "'v kx_ops \<Rightarrow> server_env \<Rightarrow> client_env \<Rightarrow> 'v kx_context \<Rightarrow> kx_message \<Rightarrow> ('v, unit) act" where
  "on_KEY_RESP ops se ce kxContext msg =
     (case destructure (kx_payload msg) of
        None \<Rightarrow> await (Inl ''TypeError'')
      | Some p \<Rightarrow>
          (let body = p ''body''; signature = p ''signature''
           in and_then (addLog ce (''Received KEY_RESP from '' @ kx_from msg)) (\<lambda>_.
              and_then (await (getPublicKey ops (kx_from msg))) (\<lambda>responderInfo.
              and_then (await (property responderInfo ''publicKey'')) (\<lambda>publicKey.
              and_then (await (processKeyRespAndDeriveKey ops body signature publicKey
                                 (ctx_keyInitBody kxContext) (ctx_initContext kxContext)))
                (\<lambda>(aesKey, sessionId, transcriptHash).
              and_then (setKxContext
                          (kxContext\<lparr>ctx_aesKey := Some aesKey, ctx_sessionId := sessionId,
                                      ctx_transcriptHash := Some transcriptHash\<rparr>)) (\<lambda>_.
              and_then (await (createKeyConfirm ops ''KEY_CONFIRM_A'' sessionId (ce_username ce)
                                 (kx_from msg) (Some aesKey) (Some transcriptHash)))
                (\<lambda>confirmMsg.
              and_then (kxAPI_sendMessage se ce (kx_from msg) ''KEY_CONFIRM_A'' confirmMsg) (\<lambda>_.
              addLog ce ''Derived session key and sent KEY_CONFIRM_A'')))))))))"

definition on_KEY_CONFIRM_A ::
  "'v kx_ops \<Rightarrow> server_env \<Rightarrow> client_env \<Rightarrow> 'v kx_context \<Rightarrow> kx_message \<Rightarrow> ('v, unit) act" where
  "on_KEY_CONFIRM_A ops se ce kxContext msg =
     and_then (addLog ce (''Received KEY_CONFIRM_A from '' @ kx_from msg)) (\<lambda>_.
     and_then (await (decryptAndVerifyKeyConfirm ops (kx_payload msg) (ctx_aesKey kxContext)
                        (ctx_transcriptHash kxContext))) (\<lambda>_.
     and_then (addLog ce ''KEY_CONFIRM_A verified, sending KEY_CONFIRM_B'') (\<lambda>_.
     and_then (await (createKeyConfirm ops ''KEY_CONFIRM_B'' (ctx_sessionId kxContext)
                        (ce_username ce) (kx_from msg) (ctx_aesKey kxContext)
                        (ctx_transcriptHash kxContext))) (\<lambda>confirmB.
     and_then (kxAPI_sendMessage se ce (kx_from msg) ''KEY_CONFIRM_B'' confirmB) (\<lambda>_.
     done_with ())))))"

definition on_KEY_CONFIRM_B ::
  "'v kx_ops \<Rightarrow> client_env \<Rightarrow> 'v kx_context \<Rightarrow> kx_message \<Rightarrow> ('v, unit) act" where
  "on_KEY_CONFIRM_B ops ce kxContext msg =
     and_then (addLog ce (''Received KEY_CONFIRM_B from '' @ kx_from msg)) (\<lambda>_.
     and_then (await (decryptAndVerifyKeyConfirm ops (kx_payload msg) (ctx_aesKey kxContext)
                        (ctx_transcriptHash kxContext))) (\<lambda>_.
     addLog ce ''KEY_CONFIRM_B verified. Secure session established!''))"

text \<open>
  The body of \<^verbatim>\<open>for (const msg of messages)\<close>. \<^verbatim>\<open>kxContext\<close> is the value the handler closed
  over when the component last rendered: \<^verbatim>\<open>setKxContext\<close> changes the state for the next
  render, not this variable.
\<close>

definition process_message ::
  "'v kx_ops \<Rightarrow> server_env \<Rightarrow> client_env \<Rightarrow> 'v kx_context option \<Rightarrow> kx_message
     \<Rightarrow> ('v, unit) act" where
  "process_message ops se ce kxContext msg =
     (if kx_messageType msg = JStr ''KEY_INIT'' then on_KEY_INIT ops se ce msg
      else if kx_messageType msg = JStr ''KEY_RESP'' \<and> has_role kxContext Initiator
      then on_KEY_RESP ops se ce (the kxContext) msg
      else if kx_messageType msg = JStr ''KEY_CONFIRM_A'' \<and> has_role kxContext Responder
      then on_KEY_CONFIRM_A ops se ce (the kxContext) msg
      else if kx_messageType msg = JStr ''KEY_CONFIRM_B'' \<and> has_role kxContext Initiator
      then on_KEY_CONFIRM_B ops ce (the kxContext) msg
      else addLog ce (''Received unrelated KX message of type ''
                        @ ce_toString ce (kx_messageType msg)))"

fun process_messages ::
  "'v kx_ops \<Rightarrow> server_env \<Rightarrow> client_env \<Rightarrow> 'v kx_context option \<Rightarrow> kx_message list
     \<Rightarrow> ('v, unit) act" where
  "process_messages ops se ce kxContext [] = done_with ()"
| "process_messages ops se ce kxContext (msg # messages) =
     and_then (process_message ops se ce kxContext msg)
       (\<lambda>_. process_messages ops se ce kxContext messages)"



text \<open>
  The last branch of the loop body is taken by a message that is no \<^verbatim>\<open>KEY_INIT\<close> and whose
  type does not go with the role of the one context held, or with no context at all.
\<close>

definition unrelated :: "'v kx_context option \<Rightarrow> kx_message \<Rightarrow> bool" where
  "unrelated kxContext msg =
     (kx_messageType msg \<noteq> JStr ''KEY_INIT''
      \<and> \<not> (kx_messageType msg = JStr ''KEY_RESP'' \<and> has_role kxContext Initiator)
      \<and> \<not> (kx_messageType msg = JStr ''KEY_CONFIRM_A'' \<and> has_role kxContext Responder)
      \<and> \<not> (kx_messageType msg = JStr ''KEY_CONFIRM_B'' \<and> has_role kxContext Initiator))"


section \<open>An executable platform\<close>

text \<open>
  A small platform on which every function above runs: byte-per-character text encoding,
  the identity for base64, a field-by-field object notation for JSON, and an AEAD whose
  ciphertext carries key, IV and associated data in front of the plaintext, so that it
  decrypts exactly under the three it was made with. It shows that the platform
  assumptions can be met, and gives the theorems concrete inputs.
\<close>

subsection \<open>Reading decimal numbers\<close>

definition digit_val :: "char \<Rightarrow> int" where
  "digit_val c = int (of_char c) - 48"

definition read_nat :: "string \<Rightarrow> int" where
  "read_nat s = foldl (\<lambda>acc c. 10 * acc + digit_val c) 0 s"

definition read_int :: "string \<Rightarrow> int" where
  "read_int s =
     (case s of [] \<Rightarrow> 0 | c # r \<Rightarrow> if c = CHR ''-'' then - read_nat r else read_nat s)"

subsection \<open>Self-delimiting lists\<close>

definition frame :: "'a \<Rightarrow> 'a \<Rightarrow> 'a list \<Rightarrow> 'a list" where
  "frame one zero xs = concat (map (\<lambda>x. [one, x]) xs) @ [zero]"

fun unframe :: "'a \<Rightarrow> 'a list \<Rightarrow> ('a list \<times> 'a list) option" where
  "unframe one [] = None"
| "unframe one [x] = (if x = one then None else Some ([], []))"
| "unframe one (x # y # r) =
     (if x = one
      then (case unframe one r of None \<Rightarrow> None | Some (s, r') \<Rightarrow> Some (y # s, r'))
      else Some ([], y # r))"

lemma unframe_length: "unframe one xs = Some (s, r) \<Longrightarrow> length r < length xs"
  by (induction one xs arbitrary: s r rule: unframe.induct)
     (fastforce split: if_splits option.splits)+

subsection \<open>AEAD\<close>

definition toy_header :: "aes_gcm_params \<Rightarrow> bytes \<Rightarrow> bytes" where
  "toy_header params k =
     frame 1 0 k @ frame 1 0 (alg_iv params) @ frame 1 0 (additionalData params)"

definition toy_encrypt :: "aes_gcm_params \<Rightarrow> bytes \<Rightarrow> bytes \<Rightarrow> bytes" where
  "toy_encrypt params k pt = toy_header params k @ pt"

definition toy_decrypt :: "aes_gcm_params \<Rightarrow> bytes \<Rightarrow> bytes \<Rightarrow> bytes option" where
  "toy_decrypt params k ct =
     (let hdr = toy_header params k
      in if take (length hdr) ct = hdr then Some (drop (length hdr) ct) else None)"

subsection \<open>JSON\<close>

fun toy_field :: "string \<times> jsval \<Rightarrow> string" where
  "toy_field (k, JStr s) = CHR ''S'' # frame CHR ''+'' CHR ''.'' k @ frame CHR ''+'' CHR ''.'' s"
| "toy_field (k, JNum n) =
     CHR ''N'' # frame CHR ''+'' CHR ''.'' k @ frame CHR ''+'' CHR ''.'' (Number_toString n)"
| "toy_field (k, v) = []"

definition toy_stringify :: "jsval \<Rightarrow> string" where
  "toy_stringify v = (case v of JObj kvs \<Rightarrow> concat (map toy_field kvs) | _ \<Rightarrow> ''null'')"

definition toy_value :: "char \<Rightarrow> string \<Rightarrow> jsval option" where
  "toy_value tag s =
     (if tag = CHR ''S'' then Some (JStr s)
      else if tag = CHR ''N'' then Some (JNum (read_int s))
      else None)"

function toy_fields :: "string \<Rightarrow> (string \<times> jsval) list option" where
  "toy_fields [] = Some []"
| "toy_fields (tag # r) =
     (case unframe CHR ''+'' r of
        None \<Rightarrow> None
      | Some (k, r1) \<Rightarrow>
     (case unframe CHR ''+'' r1 of
        None \<Rightarrow> None
      | Some (s, r2) \<Rightarrow>
     (case toy_value tag s of
        None \<Rightarrow> None
      | Some v \<Rightarrow> map_option (Cons (k, v)) (toy_fields r2))))"
  by pat_completeness auto
termination
proof (relation "measure length")
  show "wf (measure length)"
    by simp
next
  fix tag :: char and r x2 k r1 x2a s r2 v
  assume "unframe CHR ''+'' r = Some x2" "(k, r1) = x2"
    "unframe CHR ''+'' r1 = Some x2a" "(s, r2) = x2a"
  then have "length r1 < length r" "length r2 < length r1"
    using unframe_length by metis+
  then show "(r2, tag # r) \<in> measure length"
    by simp
qed

definition toy_parse :: "string \<Rightarrow> jsval option" where
  "toy_parse s = map_option JObj (toy_fields s)"

definition toy_platform :: "bytes platform" where
  "toy_platform =
     \<lparr>subtle_encrypt = toy_encrypt, subtle_decrypt = toy_decrypt,
      enc_encode = map charCodeAt, dec_decode = map fromCharCode,
      btoa = (\<lambda>s. s), atob = Some,
      JSON_stringify = toy_stringify, JSON_parse = toy_parse\<rparr>"

text \<open>An environment to run in: a generator that counts in sevens, and a clock reading.\<close>

definition env0 :: js_env where
  "env0 = \<lparr>entropy = (\<lambda>i. of_nat (7 * i + 3)), drawn = 0, now = 1700000000000\<rparr>"

subsection \<open>A server to run\<close>

text \<open>Lower case for the letters A to Z, token verification for two users, and a Mongoose.\<close>

definition toy_lower :: "string \<Rightarrow> string" where
  "toy_lower s =
     map (\<lambda>c. case map_of (zip ''ABCDEFGHIJKLMNOPQRSTUVWXYZ'' ''abcdefghijklmnopqrstuvwxyz'') c of
                None \<Rightarrow> c
              | Some l \<Rightarrow> l) s"

definition toy_verify :: "string \<Rightarrow> jwt_user option" where
  "toy_verify token =
     (if token = ''token-of-alice'' then Some \<lparr>userId = ''u1'', username = ''alice''\<rparr>
      else if token = ''token-of-bob'' then Some \<lparr>userId = ''u2'', username = ''bob''\<rparr>
      else None)"

definition alice :: jwt_user where
  "alice = \<lparr>userId = ''u1'', username = ''alice''\<rparr>"


definition alice_headers :: "string \<rightharpoonup> string" where
  "alice_headers = [''authorization'' \<mapsto> ''Bearer token-of-alice'']"

definition toy_mongoose :: mongoose where
  "toy_mongoose =
     \<lparr>castString =
        (\<lambda>v. case v of
                JStr s \<Rightarrow> Some s
              | JNum n \<Rightarrow> Some (Number_toString n)
              | JBool b \<Rightarrow> Some (if b then ''true'' else ''false'')
              | _ \<Rightarrow> None),
      newDate = (\<lambda>v. case v of JNum n \<Rightarrow> Some n | _ \<Rightarrow> None),
      dateNow = 1700000000500, newId = ''65f0''\<rparr>"

definition kx_first :: kx_message where
  "kx_first =
     \<lparr>kx_id = ''1700000000000a1'', kx_from = ''bob'', kx_to = JStr ''Alice'',
      kx_messageType = JStr ''KEY_INIT'', kx_payload = JObj [], kx_createdAt = ''t1''\<rparr>"

definition kx_second :: kx_message where
  "kx_second =
     \<lparr>kx_id = ''1700000000001b2'', kx_from = ''alice'', kx_to = JStr ''bob'',
      kx_messageType = JStr ''KEY_RESP'', kx_payload = JObj [], kx_createdAt = ''t2''\<rparr>"





definition docs0 :: "message_doc list" where
  "docs0 =
     [\<lparr>doc_id = ''d1'', doc_sessionId = ''s1'', doc_from = ''bob'', doc_to = ''alice'',
       doc_ciphertext = ''c2'', doc_iv = ''i2'', doc_msgSeq = 2, doc_timestamp = 20,
       doc_createdAt = 21, doc_updatedAt = 21\<rparr>,
      \<lparr>doc_id = ''d2'', doc_sessionId = ''s1'', doc_from = ''alice'', doc_to = ''bob'',
       doc_ciphertext = ''c1'', doc_iv = ''i1'', doc_msgSeq = 1, doc_timestamp = 30,
       doc_createdAt = 31, doc_updatedAt = 31\<rparr>,
      \<lparr>doc_id = ''d3'', doc_sessionId = ''s2'', doc_from = ''alice'', doc_to = ''bob'',
       doc_ciphertext = ''c0'', doc_iv = ''i0'', doc_msgSeq = 0, doc_timestamp = 5,
       doc_createdAt = 6, doc_updatedAt = 6\<rparr>,
      \<lparr>doc_id = ''d4'', doc_sessionId = ''s1'', doc_from = ''alice'', doc_to = ''carol'',
       doc_ciphertext = ''c9'', doc_iv = ''i9'', doc_msgSeq = 1, doc_timestamp = 7,
       doc_createdAt = 8, doc_updatedAt = 8\<rparr>,
      \<lparr>doc_id = ''d5'', doc_sessionId = ''s1'', doc_from = ''bob'', doc_to = ''alice'',
       doc_ciphertext = ''c3'', doc_iv = ''i3'', doc_msgSeq = 1, doc_timestamp = 10,
       doc_createdAt = 11, doc_updatedAt = 11\<rparr>]"

subsection \<open>A dashboard to run\<close>










section \<open>Properties of messageCrypto.js\<close>

subsection \<open>Bytes, base64 and the loop of fromBase64\<close>

lemma unat_byte_mod: "unat (b :: byte) mod 256 = unat b"
  using unsigned_less[of b, where 'a=nat] by simp

lemma charCodeAt_fromCharCode: "charCodeAt (fromCharCode b) = b"
  unfolding charCodeAt_def fromCharCode_def by (simp add: unat_byte_mod)

lemma fromCharCode_charCodeAt: "fromCharCode (charCodeAt c) = c"
  unfolding charCodeAt_def fromCharCode_def
  by (simp add: unat_of_nat take_bit_eq_mod[symmetric])

lemma fromBase64_loop_inv:
  "i \<le> length bin \<Longrightarrow> length arr = length bin \<Longrightarrow>
     fromBase64_loop bin i arr = take i arr @ map charCodeAt (drop i bin)"
proof (induction bin i arr rule: fromBase64_loop.induct)
  case (1 bin i arr)
  show ?case
  proof (cases "i < length bin")
    case True
    have "fromBase64_loop bin i arr
            = fromBase64_loop bin (Suc i) (arr[i := charCodeAt (bin ! i)])"
      using True by (subst fromBase64_loop.simps) simp
    also have "\<dots> = take (Suc i) (arr[i := charCodeAt (bin ! i)]) @ map charCodeAt (drop (Suc i) bin)"
      using "1.IH"[OF True] True "1.prems" by simp
    also have "take (Suc i) (arr[i := charCodeAt (bin ! i)]) = take i arr @ [charCodeAt (bin ! i)]"
      using True "1.prems" by (simp add: take_Suc_conv_app_nth)
    also have "(take i arr @ [charCodeAt (bin ! i)]) @ map charCodeAt (drop (Suc i) bin)
                 = take i arr @ map charCodeAt (drop i bin)"
      using True by (simp add: Cons_nth_drop_Suc[symmetric])
    finally show ?thesis .
  next
    case False
    then show ?thesis using "1.prems" by (subst fromBase64_loop.simps) simp
  qed
qed

lemma fromBase64_loop_map:
  "fromBase64_loop bin 0 (replicate (length bin) 0) = map charCodeAt bin"
  by (simp add: fromBase64_loop_inv)

subsection \<open>Decimal numbers\<close>

lemma digit_val_digit_char: "d < 10 \<Longrightarrow> digit_val (digit_char d) = int d"
  unfolding digit_char_def digit_val_def
  by (auto simp: less_Suc_eq numeral_eq_Suc)

lemma digit_char_not_minus: "d < 10 \<Longrightarrow> digit_char d \<noteq> CHR ''-''"
  unfolding digit_char_def
  by (auto simp: less_Suc_eq numeral_eq_Suc)

lemma read_nat_snoc: "read_nat (s @ [c]) = 10 * read_nat s + digit_val c"
  by (simp add: read_nat_def)

lemma read_nat_digits: "0 \<le> n \<Longrightarrow> read_nat (nat_digits n) = n"
proof (induction n rule: nat_digits.induct)
  case (1 n)
  show ?case
  proof (cases "n < 10")
    case True
    then show ?thesis
      using "1.prems"
      by (subst nat_digits.simps) (simp add: read_nat_def digit_val_digit_char)
  next
    case False
    have "nat (n mod 10) < 10"
      by simp
    then have "digit_val (digit_char (nat (n mod 10))) = n mod 10"
      by (simp add: digit_val_digit_char)
    moreover have "read_nat (nat_digits (n div 10)) = n div 10"
      using "1.IH" False "1.prems" by simp
    ultimately show ?thesis
      using False by (subst nat_digits.simps) (simp add: read_nat_snoc)
  qed
qed

lemma nat_digits_hd: "0 \<le> n \<Longrightarrow> \<exists>c r. nat_digits n = c # r \<and> c \<noteq> CHR ''-''"
proof (induction n rule: nat_digits.induct)
  case (1 n)
  show ?case
  proof (cases "n < 10")
    case True
    then show ?thesis
      using "1.prems" by (subst nat_digits.simps) (simp add: digit_char_not_minus)
  next
    case False
    then obtain c r where "nat_digits (n div 10) = c # r" "c \<noteq> CHR ''-''"
      using "1.IH" "1.prems" by fastforce
    then show ?thesis
      using False by (subst nat_digits.simps) simp
  qed
qed

lemma read_int_toString: "read_int (Number_toString n) = n"
proof (cases "n < 0")
  case True
  then show ?thesis
    by (simp add: Number_toString_def read_int_def read_nat_digits)
next
  case False
  then obtain c r where cr: "nat_digits n = c # r" "c \<noteq> CHR ''-''"
    using nat_digits_hd[of n] by auto
  have "read_nat (c # r) = n"
    using read_nat_digits[of n] cr False by simp
  then show ?thesis
    using False cr by (simp add: Number_toString_def read_int_def)
qed

lemma Number_toString_inj: "Number_toString a = Number_toString b \<Longrightarrow> a = b"
  by (metis read_int_toString)

subsection \<open>The executable platform meets the assumptions\<close>

lemma unframe_stop: "zero \<noteq> one \<Longrightarrow> unframe one (zero # r) = Some ([], r)"
  by (cases r) simp_all

lemma unframe_frame: "zero \<noteq> one \<Longrightarrow> unframe one (frame one zero xs @ r) = Some (xs, r)"
  by (induction xs) (simp_all add: frame_def unframe_stop)

lemma frame_cancel:
  assumes "zero \<noteq> one" and "frame one zero xs @ r = frame one zero ys @ r'"
  shows "xs = ys \<and> r = r'"
proof -
  have "unframe one (frame one zero xs @ r) = unframe one (frame one zero ys @ r')"
    by (simp only: assms(2))
  then have "Some (xs, r) = Some (ys, r')"
    by (simp only: unframe_frame[OF assms(1)])
  then show ?thesis
    by simp
qed

lemma toy_decrypt_encrypt: "toy_decrypt params k (toy_encrypt params k pt) = Some pt"
  by (simp add: toy_decrypt_def toy_encrypt_def)

lemma toy_decrypt_other_aad:
  assumes "additionalData params' \<noteq> additionalData params"
    and "alg_iv params' = alg_iv params"
  shows "toy_decrypt params' k (toy_encrypt params k pt) = None"
proof -
  let ?pre = "frame 1 0 k @ frame 1 0 (alg_iv params)"
  let ?h = "toy_header params k" and ?h' = "toy_header params' k"
  have "take (length ?h') (?h @ pt) \<noteq> ?h'"
  proof
    assume eq: "take (length ?h') (?h @ pt) = ?h'"
    have "?h @ pt = take (length ?h') (?h @ pt) @ drop (length ?h') (?h @ pt)"
      by (rule append_take_drop_id[symmetric])
    then have "?h @ pt = ?h' @ drop (length ?h') (?h @ pt)"
      by (simp only: eq)
    then have "frame 1 0 (additionalData params) @ pt
                 = frame 1 0 (additionalData params') @ drop (length ?h') (?h @ pt)"
      using assms(2) by (simp add: toy_header_def)
    then have "additionalData params = additionalData params'"
      using frame_cancel[of "0::byte" 1, OF zero_neq_one] by blast
    then show False
      using assms(1) by simp
  qed
  then show ?thesis
    by (simp add: toy_decrypt_def toy_encrypt_def Let_def)
qed

lemma toy_fields_JStr:
  "toy_fields (toy_field (k, JStr s) @ r) = map_option (Cons (k, JStr s)) (toy_fields r)"
  by (simp add: unframe_frame toy_value_def)

lemma toy_fields_JNum:
  "toy_fields (toy_field (k, JNum n) @ r) = map_option (Cons (k, JNum n)) (toy_fields r)"
  by (simp add: unframe_frame toy_value_def read_int_toString)

lemma toy_parse_stringify:
  "toy_parse (toy_stringify (plaintextObj sid f t seq ts c)) = Some (plaintextObj sid f t seq ts c)"
proof -
  have "toy_fields (toy_field (''sessionId'', JStr sid) @ toy_field (''from'', JStr f)
          @ toy_field (''to'', JStr t) @ toy_field (''msgSeq'', JNum seq)
          @ toy_field (''timestamp'', JNum ts) @ toy_field (''content'', JStr c) @ [])
        = Some [(''sessionId'', JStr sid), (''from'', JStr f), (''to'', JStr t),
                (''msgSeq'', JNum seq), (''timestamp'', JNum ts), (''content'', JStr c)]"
    by (simp only: toy_fields_JStr toy_fields_JNum toy_fields.simps option.map)
  then show ?thesis
    by (simp add: toy_parse_def toy_stringify_def plaintextObj_def del: toy_field.simps)
qed

lemma toy_platform_laws: "platform_laws toy_platform"
  by (simp add: platform_laws_def aead_correct_def base64_correct_def utf8_correct_def
      json_correct_def toy_platform_def toy_decrypt_encrypt toy_parse_stringify
      fromCharCode_charCodeAt comp_def)

subsection \<open>Decrypting what was encrypted\<close>

lemma fromBase64_loop_fromCharCode:
  "fromBase64_loop (map fromCharCode bs) 0 (replicate (length bs) 0) = bs"
  using fromBase64_loop_map[of "map fromCharCode bs"]
  by (simp add: charCodeAt_fromCharCode comp_def)

lemma fromBase64_toBase64:
  "base64_correct P \<Longrightarrow> fromBase64 P (toBase64 P bs) = Inr bs"
  by (simp add: base64_correct_def fromBase64_def toBase64_def fromBase64_loop_fromCharCode)

lemma getProp_plaintextObj_timestamp:
  "getProp (plaintextObj sid f t seq ts c) ''timestamp'' = Inr (JNum ts)"
  by (simp add: plaintextObj_def)

lemma getProp_plaintextObj_content:
  "getProp (plaintextObj sid f t seq ts c) ''content'' = Inr (JStr c)"
  by (simp add: plaintextObj_def)

lemma aad_same_template:
  "decryptMessage_aad P (envelope sid f t seq e ts) = encryptMessage_aad P sid f t seq"
  by (simp add: decryptMessage_aad_def encryptMessage_aad_def envelope_def)

lemma decryptMessage_result_plaintextObj:
  assumes "utf8_correct P" and "json_correct P"
  shows "decryptMessage_result P m
           (enc_encode P (JSON_stringify P (plaintextObj sid f t seq now_ms content)))
         = Inr \<lparr>dec_from = msg_from m, dec_to = msg_to m, dec_sessionId = msg_sessionId m,
                dec_msgSeq = msg_msgSeq m, dec_timestamp = js_or (JNum now_ms) (msg_timestamp m),
                dec_content = JStr content\<rparr>"
  using assms
  by (simp add: decryptMessage_result_def utf8_correct_def json_correct_def
      getProp_plaintextObj_timestamp getProp_plaintextObj_content)

text \<open>
  The core of every round trip: an envelope built from the output of \<^const>\<open>encryptMessage\<close>
  decrypts whenever its metadata gives the associated data the ciphertext was made with.
  The metadata returned is the envelope's own.
\<close>

lemma decrypt_same_aad:
  assumes laws: "platform_laws P"
    and e: "e = fst (encryptMessage P k sid f t seq content env)"
    and m: "msg_ciphertext m = enc_ciphertext e" "msg_iv m = enc_iv e"
    and aad: "decryptMessage_aad P m = encryptMessage_aad P sid f t seq"
  shows "decryptMessage P k m
         = Inr \<lparr>dec_from = msg_from m, dec_to = msg_to m, dec_sessionId = msg_sessionId m,
                dec_msgSeq = msg_msgSeq m, dec_timestamp = js_or (JNum (now env)) (msg_timestamp m),
                dec_content = JStr content\<rparr>"
proof -
  from laws have a: "aead_correct P" and b: "base64_correct P" and u: "utf8_correct P"
    and j: "json_correct P"
    by (simp_all add: platform_laws_def)
  let ?iv = "fst (randomBytes 12 env)"
  let ?pt = "enc_encode P (JSON_stringify P (plaintextObj sid f t seq (now env) content))"
  let ?params = "\<lparr>alg_name = ''AES-GCM'', alg_iv = ?iv,
                  additionalData = encryptMessage_aad P sid f t seq\<rparr>"
  have iv: "msg_iv m = toBase64 P ?iv"
    using m(2) e by (simp add: encryptMessage_def Let_def split_def)
  have ct: "msg_ciphertext m = toBase64 P (subtle_encrypt P ?params k ?pt)"
    using m(1) e by (simp add: encryptMessage_def Let_def split_def)
  have "decryptMessage P k m = decryptMessage_result P m ?pt"
    using a by (simp add: decryptMessage_def iv ct aad fromBase64_toBase64[OF b] aead_correct_def)
  then show ?thesis
    by (simp add: decryptMessage_result_plaintextObj[OF u j])
qed

lemma decrypt_encrypt:
  assumes "platform_laws P"
  shows "decryptMessage P k
           (envelope sid f t seq (fst (encryptMessage P k sid f t seq content env)) ts)
         = Inr \<lparr>dec_from = f, dec_to = t, dec_sessionId = sid, dec_msgSeq = seq,
                dec_timestamp = js_or (JNum (now env)) ts, dec_content = JStr content\<rparr>"
  using decrypt_same_aad[OF assms refl, of "envelope sid f t seq
          (fst (encryptMessage P k sid f t seq content env)) ts" k sid f t seq content env]
  by (simp add: aad_same_template) (simp add: envelope_def)

subsection \<open>Claims\<close>



text \<open>
  C3. In \<^const>\<open>encryptMessage\<close> and in \<^const>\<open>decryptMessage\<close> the associated data handed to
  AES-GCM is the UTF-8 encoding of \<^verbatim>\<open>sessionId + "|" + from + "|" + to + "|" + msgSeq\<close>;
  \<^const>\<open>decryptMessage\<close> takes the four values from the envelope, so over the same metadata
  the two compute the same bytes.
\<close>

theorem associated_data_is_metadata_string:
  "fst (encryptMessage P aesKey sessionId from' to' msgSeq content env)
     = \<lparr>enc_ciphertext =
          toBase64 P
            (subtle_encrypt P
               \<lparr>alg_name = ''AES-GCM'', alg_iv = fst (randomBytes 12 env),
                additionalData = associatedData_spec P sessionId from' to' msgSeq\<rparr>
               aesKey
               (enc_encode P
                  (JSON_stringify P
                     (plaintextObj sessionId from' to' msgSeq (now env) content)))),
        enc_iv = toBase64 P (fst (randomBytes 12 env)),
        enc_timestamp = now env, enc_msgSeq = msgSeq\<rparr>
   \<and> decryptMessage P aesKey m
     = (case fromBase64 P (msg_iv m) of
          Inl e \<Rightarrow> Inl e
        | Inr ivBytes \<Rightarrow>
       (case fromBase64 P (msg_ciphertext m) of
          Inl e \<Rightarrow> Inl e
        | Inr cipherBytes \<Rightarrow>
       (case subtle_decrypt P
               \<lparr>alg_name = ''AES-GCM'', alg_iv = ivBytes,
                additionalData =
                  associatedData_spec P (msg_sessionId m) (msg_from m) (msg_to m) (msg_msgSeq m)\<rparr>
               aesKey cipherBytes of
          None \<Rightarrow> Inl OperationError
        | Some plaintext \<Rightarrow> decryptMessage_result P m plaintext)))
   \<and> decryptMessage_aad P (envelope sessionId from' to' msgSeq e ts)
     = encryptMessage_aad P sessionId from' to' msgSeq
   \<and> encryptMessage_aad P sessionId from' to' msgSeq
     = associatedData_spec P sessionId from' to' msgSeq"
proof -
  have enc: "encryptMessage_aad P sessionId from' to' msgSeq
               = associatedData_spec P sessionId from' to' msgSeq" for sessionId from' to' msgSeq
    by (simp add: encryptMessage_aad_def associatedData_spec_def)
  have dec: "decryptMessage_aad P m
               = associatedData_spec P (msg_sessionId m) (msg_from m) (msg_to m) (msg_msgSeq m)"
    by (simp add: decryptMessage_aad_def associatedData_spec_def)
  have "fst (encryptMessage P aesKey sessionId from' to' msgSeq content env)
     = \<lparr>enc_ciphertext =
          toBase64 P
            (subtle_encrypt P
               \<lparr>alg_name = ''AES-GCM'', alg_iv = fst (randomBytes 12 env),
                additionalData = associatedData_spec P sessionId from' to' msgSeq\<rparr>
               aesKey
               (enc_encode P
                  (JSON_stringify P
                     (plaintextObj sessionId from' to' msgSeq (now env) content)))),
        enc_iv = toBase64 P (fst (randomBytes 12 env)),
        enc_timestamp = now env, enc_msgSeq = msgSeq\<rparr>"
    by (simp add: encryptMessage_def Let_def split_def enc)
  moreover have "decryptMessage P aesKey m
     = (case fromBase64 P (msg_iv m) of
          Inl e \<Rightarrow> Inl e
        | Inr ivBytes \<Rightarrow>
       (case fromBase64 P (msg_ciphertext m) of
          Inl e \<Rightarrow> Inl e
        | Inr cipherBytes \<Rightarrow>
       (case subtle_decrypt P
               \<lparr>alg_name = ''AES-GCM'', alg_iv = ivBytes,
                additionalData =
                  associatedData_spec P (msg_sessionId m) (msg_from m) (msg_to m) (msg_msgSeq m)\<rparr>
               aesKey cipherBytes of
          None \<Rightarrow> Inl OperationError
        | Some plaintext \<Rightarrow> decryptMessage_result P m plaintext)))"
    unfolding decryptMessage_def Let_def dec by (rule refl)
  ultimately show ?thesis
    by (simp add: aad_same_template enc)
qed


text \<open>
  C5. \<^const>\<open>decryptMessage\<close> keeps nothing from one call to the next, and no highest sequence
  number per sender: an envelope that decrypts decrypts to the same result whatever was
  decrypted before it, and again when it is replayed later.
\<close>

theorem replay_decrypts_again:
  assumes "decryptMessage P aesKey m = Inr r"
  shows "decryptAll P aesKey (before @ [m] @ between @ [m])
         = decryptAll P aesKey before @ [Inr r] @ decryptAll P aesKey between @ [Inr r]"
  using assms by (simp add: decryptAll_def)

theorem replay_decrypts_again_witness:
  "decryptMessage toy_platform [1, 2, 3]
     (envelope ''s1'' ''alice'' ''bob'' 1
        (fst (encryptMessage toy_platform [1, 2, 3] ''s1'' ''alice'' ''bob'' 1 ''hello'' env0))
        JUndefined)
   = Inr \<lparr>dec_from = ''alice'', dec_to = ''bob'', dec_sessionId = ''s1'', dec_msgSeq = 1,
          dec_timestamp = JNum 1700000000000, dec_content = JStr ''hello''\<rparr>
   \<and> decryptAll toy_platform [1, 2, 3]
       ([envelope ''s1'' ''alice'' ''bob'' 2
           (fst (encryptMessage toy_platform [1, 2, 3] ''s1'' ''alice'' ''bob'' 2 ''later'' env0))
           JUndefined]
        @ [envelope ''s1'' ''alice'' ''bob'' 1
             (fst (encryptMessage toy_platform [1, 2, 3] ''s1'' ''alice'' ''bob'' 1 ''hello'' env0))
             JUndefined]
        @ []
        @ [envelope ''s1'' ''alice'' ''bob'' 1
             (fst (encryptMessage toy_platform [1, 2, 3] ''s1'' ''alice'' ''bob'' 1 ''hello'' env0))
             JUndefined])
     = decryptAll toy_platform [1, 2, 3]
         [envelope ''s1'' ''alice'' ''bob'' 2
            (fst (encryptMessage toy_platform [1, 2, 3] ''s1'' ''alice'' ''bob'' 2 ''later'' env0))
            JUndefined]
       @ [Inr \<lparr>dec_from = ''alice'', dec_to = ''bob'', dec_sessionId = ''s1'', dec_msgSeq = 1,
               dec_timestamp = JNum 1700000000000, dec_content = JStr ''hello''\<rparr>]
       @ decryptAll toy_platform [1, 2, 3] []
       @ [Inr \<lparr>dec_from = ''alice'', dec_to = ''bob'', dec_sessionId = ''s1'', dec_msgSeq = 1,
               dec_timestamp = JNum 1700000000000, dec_content = JStr ''hello''\<rparr>]"
proof -
  let ?m = "envelope ''s1'' ''alice'' ''bob'' 1
      (fst (encryptMessage toy_platform [1, 2, 3] ''s1'' ''alice'' ''bob'' 1 ''hello'' env0))
      JUndefined"
  let ?r = "\<lparr>dec_from = ''alice'', dec_to = ''bob'', dec_sessionId = ''s1'', dec_msgSeq = 1,
      dec_timestamp = JNum 1700000000000, dec_content = JStr ''hello''\<rparr>"
  have d: "decryptMessage toy_platform [1, 2, 3] ?m = Inr ?r"
    using decrypt_encrypt[OF toy_platform_laws, of "[1, 2, 3]" "''s1''" "''alice''" "''bob''" 1
        "''hello''" env0 JUndefined]
    by (simp add: env0_def js_or_def)
  from replay_decrypts_again[OF d] d show ?thesis
    by blast
qed

text \<open>
  C4, as the code has it. The tuple \<^verbatim>\<open>(sessionId, from, to, msgSeq)\<close> is bound into every
  ciphertext as associated data, and nothing records which tuples were used: two
  different plaintexts encrypted under the same key and the same tuple give two envelopes
  that both decrypt, each to its own plaintext.
\<close>

theorem tuple_reuse_decrypts:
  assumes "platform_laws P"
    and "encryptMessage P aesKey sessionId from' to' msgSeq content1 env = (e1, env1)"
    and "encryptMessage P aesKey sessionId from' to' msgSeq content2 env1 = (e2, env2)"
  shows "decryptMessage P aesKey (envelope sessionId from' to' msgSeq e1 ts1)
           = Inr \<lparr>dec_from = from', dec_to = to', dec_sessionId = sessionId,
                  dec_msgSeq = msgSeq, dec_timestamp = js_or (JNum (now env)) ts1,
                  dec_content = JStr content1\<rparr>
         \<and> decryptMessage P aesKey (envelope sessionId from' to' msgSeq e2 ts2)
           = Inr \<lparr>dec_from = from', dec_to = to', dec_sessionId = sessionId,
                  dec_msgSeq = msgSeq, dec_timestamp = js_or (JNum (now env1)) ts2,
                  dec_content = JStr content2\<rparr>"
proof -
  have "e1 = fst (encryptMessage P aesKey sessionId from' to' msgSeq content1 env)"
    and "e2 = fst (encryptMessage P aesKey sessionId from' to' msgSeq content2 env1)"
    using assms(2,3) by simp_all
  then show ?thesis
    using decrypt_encrypt[OF assms(1)] by simp
qed

theorem tuple_reuse_decrypts_witness:
  "platform_laws toy_platform
   \<and> decryptMessage toy_platform [1, 2, 3]
       (envelope ''s1'' ''alice'' ''bob'' 1
          (fst (encryptMessage toy_platform [1, 2, 3] ''s1'' ''alice'' ''bob'' 1 ''hello'' env0))
          JUndefined)
     = Inr \<lparr>dec_from = ''alice'', dec_to = ''bob'', dec_sessionId = ''s1'', dec_msgSeq = 1,
            dec_timestamp = js_or (JNum (now env0)) JUndefined, dec_content = JStr ''hello''\<rparr>
   \<and> decryptMessage toy_platform [1, 2, 3]
       (envelope ''s1'' ''alice'' ''bob'' 1
          (fst (encryptMessage toy_platform [1, 2, 3] ''s1'' ''alice'' ''bob'' 1 ''world''
                  (snd (encryptMessage toy_platform [1, 2, 3] ''s1'' ''alice'' ''bob'' 1 ''hello''
                          env0))))
          JUndefined)
     = Inr \<lparr>dec_from = ''alice'', dec_to = ''bob'', dec_sessionId = ''s1'', dec_msgSeq = 1,
            dec_timestamp =
              js_or
                (JNum (now (snd (encryptMessage toy_platform [1, 2, 3] ''s1'' ''alice'' ''bob'' 1
                                   ''hello'' env0))))
                JUndefined,
            dec_content = JStr ''world''\<rparr>"
proof -
  let ?a = "encryptMessage toy_platform [1, 2, 3] ''s1'' ''alice'' ''bob'' 1 ''hello'' env0"
  let ?b = "encryptMessage toy_platform [1, 2, 3] ''s1'' ''alice'' ''bob'' 1 ''world'' (snd ?a)"
  have a: "?a = (fst ?a, snd ?a)" and b: "?b = (fst ?b, snd ?b)"
    by simp_all
  from tuple_reuse_decrypts[OF toy_platform_laws a b, of JUndefined JUndefined]
  show ?thesis
    using toy_platform_laws by simp
qed

text \<open>
  The claim as the specification words it fails at \<^verbatim>\<open>"hello"\<close> and \<^verbatim>\<open>"world"\<close>: the same
  key, the same tuple, two different plaintexts, and both envelopes decrypt.
\<close>

lemma encryptMessage_now: "now (snd (encryptMessage P k sid f t seq c env)) = now env"
  by (simp add: encryptMessage_def Let_def split_def randomBytes_def)

theorem tuple_reuse_counterexample:
  "''hello'' \<noteq> ''world''
   \<and> decryptMessage toy_platform [1, 2, 3]
       (envelope ''s1'' ''alice'' ''bob'' 1
          (fst (encryptMessage toy_platform [1, 2, 3] ''s1'' ''alice'' ''bob'' 1 ''hello'' env0))
          JUndefined)
     = Inr \<lparr>dec_from = ''alice'', dec_to = ''bob'', dec_sessionId = ''s1'', dec_msgSeq = 1,
            dec_timestamp = JNum 1700000000000, dec_content = JStr ''hello''\<rparr>
   \<and> decryptMessage toy_platform [1, 2, 3]
       (envelope ''s1'' ''alice'' ''bob'' 1
          (fst (encryptMessage toy_platform [1, 2, 3] ''s1'' ''alice'' ''bob'' 1 ''world''
                  (snd (encryptMessage toy_platform [1, 2, 3] ''s1'' ''alice'' ''bob'' 1 ''hello''
                          env0))))
          JUndefined)
     = Inr \<lparr>dec_from = ''alice'', dec_to = ''bob'', dec_sessionId = ''s1'', dec_msgSeq = 1,
            dec_timestamp = JNum 1700000000000, dec_content = JStr ''world''\<rparr>"
  by (simp add: decrypt_encrypt[OF toy_platform_laws] encryptMessage_now js_or_def)
     (simp add: env0_def)

text \<open>
  C2. On a failed authentication nothing is returned but the fault; and what is
  authenticated is the joined string, not the four fields. An envelope whose sender is
  \<^verbatim>\<open>x|y\<close> and whose recipient is \<^verbatim>\<open>z\<close> has the associated data of the envelope whose
  sender is \<^verbatim>\<open>x\<close> and whose recipient is \<^verbatim>\<open>y|z\<close>: with the fields altered so,
  \<^const>\<open>decryptMessage\<close> succeeds and returns the altered sender and recipient.
\<close>

theorem metadata_shift_decrypts:
  assumes "platform_laws P"
    and "encryptMessage P aesKey sessionId (x @ ''|'' @ y) z msgSeq content env = (e, env')"
  shows "decryptMessage P aesKey (envelope sessionId x (y @ ''|'' @ z) msgSeq e ts)
         = Inr \<lparr>dec_from = x, dec_to = y @ ''|'' @ z, dec_sessionId = sessionId,
                dec_msgSeq = msgSeq, dec_timestamp = js_or (JNum (now env)) ts,
                dec_content = JStr content\<rparr>"
proof -
  let ?m = "envelope sessionId x (y @ ''|'' @ z) msgSeq e ts"
  have e: "e = fst (encryptMessage P aesKey sessionId (x @ ''|'' @ y) z msgSeq content env)"
    using assms(2) by simp
  have aad: "decryptMessage_aad P ?m = encryptMessage_aad P sessionId (x @ ''|'' @ y) z msgSeq"
    by (simp add: decryptMessage_aad_def encryptMessage_aad_def envelope_def)
  have "msg_ciphertext ?m = enc_ciphertext e" "msg_iv ?m = enc_iv e"
    by (simp_all add: envelope_def)
  from decrypt_same_aad[OF assms(1) e this aad] show ?thesis
    by (simp add: envelope_def)
qed

theorem metadata_shift_decrypts_witness:
  "platform_laws toy_platform
   \<and> decryptMessage toy_platform [1, 2, 3]
       (envelope ''s1'' ''a'' ''b|cde'' 1
          (fst (encryptMessage toy_platform [1, 2, 3] ''s1'' ''a|b'' ''cde'' 1 ''hello'' env0))
          JUndefined)
     = Inr \<lparr>dec_from = ''a'', dec_to = ''b|cde'', dec_sessionId = ''s1'', dec_msgSeq = 1,
            dec_timestamp = JNum 1700000000000, dec_content = JStr ''hello''\<rparr>"
proof -
  let ?r = "encryptMessage toy_platform [1, 2, 3] ''s1'' (''a'' @ ''|'' @ ''b'') ''cde'' 1
              ''hello'' env0"
  have "?r = (fst ?r, snd ?r)"
    by simp
  from metadata_shift_decrypts[OF toy_platform_laws this, of JUndefined]
  show ?thesis
    using toy_platform_laws by (simp add: env0_def js_or_def)
qed

subsection \<open>What the associated data does detect\<close>

text \<open>A ciphertext that does not verify yields the fault and no decrypted object.\<close>

lemma decrypt_fails_closed:
  assumes "fromBase64 P (msg_iv m) = Inr ivBytes"
    and "fromBase64 P (msg_ciphertext m) = Inr cipherBytes"
    and "subtle_decrypt P
           \<lparr>alg_name = ''AES-GCM'', alg_iv = ivBytes, additionalData = decryptMessage_aad P m\<rparr>
           aesKey cipherBytes = None"
  shows "decryptMessage P aesKey m = Inl OperationError"
  using assms by (simp add: decryptMessage_def)

lemma utf8_encode_inj:
  assumes "utf8_correct P" and "enc_encode P s = enc_encode P s'"
  shows "s = s'"
  using assms by (metis utf8_correct_def)

text \<open>
  Where the tag covers the associated data, an envelope whose joined metadata string
  differs from the one encrypted under is rejected.
\<close>

lemma decrypt_other_metadata_string:
  assumes laws: "platform_laws P" and binds: "aead_binds_aad P"
    and e: "encryptMessage P k sid f t seq content env = (e, env')"
    and differs: "sid' @ ''|'' @ f' @ ''|'' @ t' @ ''|'' @ Number_toString seq'
                    \<noteq> sid @ ''|'' @ f @ ''|'' @ t @ ''|'' @ Number_toString seq"
  shows "decryptMessage P k (envelope sid' f' t' seq' e ts) = Inl OperationError"
proof -
  from laws have b: "base64_correct P" and u: "utf8_correct P"
    by (simp_all add: platform_laws_def)
  let ?m = "envelope sid' f' t' seq' e ts"
  let ?iv = "fst (randomBytes 12 env)"
  let ?pt = "enc_encode P (JSON_stringify P (plaintextObj sid f t seq (now env) content))"
  let ?params = "\<lparr>alg_name = ''AES-GCM'', alg_iv = ?iv,
                  additionalData = encryptMessage_aad P sid f t seq\<rparr>"
  have iv: "msg_iv ?m = toBase64 P ?iv"
    using e by (auto simp: encryptMessage_def Let_def split_def envelope_def)
  have ct: "msg_ciphertext ?m = toBase64 P (subtle_encrypt P ?params k ?pt)"
    using e by (auto simp: encryptMessage_def Let_def split_def envelope_def)
  have "decryptMessage_aad P ?m \<noteq> encryptMessage_aad P sid f t seq"
    using differs utf8_encode_inj[OF u]
    by (auto simp: decryptMessage_aad_def encryptMessage_aad_def envelope_def)
  then have "subtle_decrypt P
        \<lparr>alg_name = ''AES-GCM'', alg_iv = ?iv, additionalData = decryptMessage_aad P ?m\<rparr> k
        (subtle_encrypt P ?params k ?pt) = None"
    using binds by (simp add: aead_binds_aad_def)
  then show ?thesis
    by (simp add: decryptMessage_def iv ct fromBase64_toBase64[OF b])
qed

text \<open>Altering one of the four fields, the others kept, always changes that string.\<close>

lemma decrypt_one_field_altered:
  assumes "platform_laws P" and "aead_binds_aad P"
    and "encryptMessage P k sid f t seq content env = (e, env')"
    and "(sid' \<noteq> sid \<and> f' = f \<and> t' = t \<and> seq' = seq)
         \<or> (sid' = sid \<and> f' \<noteq> f \<and> t' = t \<and> seq' = seq)
         \<or> (sid' = sid \<and> f' = f \<and> t' \<noteq> t \<and> seq' = seq)
         \<or> (sid' = sid \<and> f' = f \<and> t' = t \<and> seq' \<noteq> seq)"
  shows "decryptMessage P k (envelope sid' f' t' seq' e ts) = Inl OperationError"
proof (rule decrypt_other_metadata_string[OF assms(1,2,3)])
  have "f' @ ''|'' @ t @ ''|'' @ Number_toString seq = f @ ''|'' @ t @ ''|'' @ Number_toString seq
          \<Longrightarrow> f' = f"
    using append_same_eq[of f' "''|'' @ t @ ''|'' @ Number_toString seq" f] by simp
  moreover have "t' @ ''|'' @ Number_toString seq = t @ ''|'' @ Number_toString seq \<Longrightarrow> t' = t"
    using append_same_eq[of t' "''|'' @ Number_toString seq" t] by simp
  moreover have "sid' @ ''|'' @ f @ ''|'' @ t @ ''|'' @ Number_toString seq
                   = sid @ ''|'' @ f @ ''|'' @ t @ ''|'' @ Number_toString seq \<Longrightarrow> sid' = sid"
    using append_same_eq[of sid' "''|'' @ f @ ''|'' @ t @ ''|'' @ Number_toString seq" sid]
    by simp
  ultimately show "sid' @ ''|'' @ f' @ ''|'' @ t' @ ''|'' @ Number_toString seq'
                    \<noteq> sid @ ''|'' @ f @ ''|'' @ t @ ''|'' @ Number_toString seq"
    using assms(4) Number_toString_inj[of seq' seq] by auto
qed

lemma toy_platform_binds_aad: "aead_binds_aad toy_platform"
  by (simp add: aead_binds_aad_def toy_platform_def toy_decrypt_other_aad)

section \<open>Properties of the backend\<close>

subsection \<open>The inbox of the key-exchange transport\<close>







lemma kx_send_fresh_id:
  assumes "distinct (map kx_id ms)"
    and "Number_toString (send_now env) @ send_random env \<notin> kx_id ` set ms"
  shows "distinct (map kx_id (snd (kx_send env user body ms)))"
  using assms by (auto simp: kx_send_def Let_def split: option.splits)

text \<open>
  The loop looks a delivered message up by its id. The ids are what ties removal to
  delivery: were two queued messages to carry the same id, the first of them in the store
  would be removed in place of the one delivered.
\<close>

lemma removal_is_by_id:
  "kx_inbox toy_lower alice [kx_second\<lparr>kx_id := kx_id kx_first\<rparr>, kx_first]
   = (Json 200 [kx_first], [kx_first])"
  by (simp add: kx_inbox_def kx_first_def kx_second_def alice_def inbox_match_def toy_lower_def
      Let_def splice1_def)

subsection \<open>Storing and reading encrypted messages\<close>

lemma Message_save_from:
  "Message_save M sessionId from' to' ciphertext iv msgSeq timestamp = Some message
     \<Longrightarrow> doc_from message = from'"
  by (auto simp: Message_save_def split: option.splits jsval.splits if_splits)

lemma messages_send_rejects:
  assumes "destructure body = Some b"
    and "\<not> truthy (b ''sessionId'') \<or> \<not> truthy (b ''to'') \<or> \<not> truthy (b ''ciphertext'')
         \<or> \<not> truthy (b ''iv'') \<or> \<not> is_number (b ''msgSeq'')"
  shows "messages_send M user body stored
         = (Error 400 ''sessionId, to, ciphertext, iv and numeric msgSeq are required'', stored)"
  using assms by (auto simp: messages_send_def Let_def)

lemma messages_send_stores:
  "messages_send M user body stored = (r, stored') \<Longrightarrow>
     stored' = stored
     \<or> (\<exists>message. stored' = stored @ [message] \<and> doc_from message = username user
           \<and> r = Json 201 (JObj [(''message'', JStr ''Encrypted message stored'')]))"
  by (auto simp: messages_send_def Let_def Message_save_from
      split: option.splits if_splits)

lemma messages_send_accepts:
  assumes "destructure body = Some b"
    and "truthy (b ''sessionId'')" "truthy (b ''to'')" "truthy (b ''ciphertext'')"
        "truthy (b ''iv'')" "is_number (b ''msgSeq'')"
  shows "messages_send M user body stored
           = (Error 500 ''Internal server error in /messages/send'', stored)
         \<or> (\<exists>message.
               messages_send M user body stored
                 = (Json 201 (JObj [(''message'', JStr ''Encrypted message stored'')]),
                    stored @ [message])
               \<and> doc_from message = username user)"
  using assms
  by (auto simp: messages_send_def Let_def Message_save_from split: option.splits)

lemma messages_send_ignores_body_from:
  "messages_send M user (JObj ((''from'', v) # kvs)) stored
   = messages_send M user (JObj kvs) stored"
  by (simp add: messages_send_def Let_def)

lemma conversation_docs:
  assumes "peer \<noteq> []" and "sessionId \<noteq> []"
  shows "messages_conversation user peer sessionId stored
         = Json 200 (map safeMessage
             (Message_find_sorted (criteria (username user) peer sessionId) stored))"
  using assms by (simp add: messages_conversation_def Let_def)

lemma find_sorted_mset:
  "mset (Message_find_sorted crit stored) = filter_mset crit (mset stored)"
  by (simp add: Message_find_sorted_def)

lemma find_sorted_sorted:
  "sorted (map (\<lambda>m. (doc_msgSeq m, doc_timestamp m)) (Message_find_sorted crit stored))"
  by (simp add: Message_find_sorted_def)

subsection \<open>Claims\<close>

text \<open>
  C8. For a request to \<^verbatim>\<open>POST /messages/send\<close> that passes \<^const>\<open>authenticateToken\<close>: when
  \<^verbatim>\<open>sessionId\<close>, \<^verbatim>\<open>to\<close>, \<^verbatim>\<open>ciphertext\<close> or \<^verbatim>\<open>iv\<close> is missing (falsy), or \<^verbatim>\<open>msgSeq\<close> is not
  a number, the reply is 400 and nothing is stored. Otherwise either the save fails (500,
  nothing stored) or exactly one document is stored, and its \<^verbatim>\<open>from\<close> is the username of
  the verified token. The body's own \<^verbatim>\<open>from\<close> is never read.
\<close>

theorem messages_send_checks_and_stamps_sender:
  assumes "authenticateToken verify (req_headers req) = Inr user"
    and "destructure (req_body req) = Some b"
  shows "(if \<not> truthy (b ''sessionId'') \<or> \<not> truthy (b ''to'') \<or> \<not> truthy (b ''ciphertext'')
             \<or> \<not> truthy (b ''iv'') \<or> \<not> is_number (b ''msgSeq'')
          then messages_send_route verify M req stored
                 = (Error 400 ''sessionId, to, ciphertext, iv and numeric msgSeq are required'',
                    stored)
          else messages_send_route verify M req stored
                 = (Error 500 ''Internal server error in /messages/send'', stored)
               \<or> (\<exists>message.
                     messages_send_route verify M req stored
                       = (Json 201 (JObj [(''message'', JStr ''Encrypted message stored'')]),
                          stored @ [message])
                     \<and> doc_from message = username user))
         \<and> messages_send M user (JObj ((''from'', v) # kvs)) stored
             = messages_send M user (JObj kvs) stored"
proof -
  have route: "messages_send_route verify M req stored = messages_send M user (req_body req) stored"
    using assms(1) by (simp add: messages_send_route_def)
  show ?thesis
  proof (cases "\<not> truthy (b ''sessionId'') \<or> \<not> truthy (b ''to'') \<or> \<not> truthy (b ''ciphertext'')
             \<or> \<not> truthy (b ''iv'') \<or> \<not> is_number (b ''msgSeq'')")
    case True
    then show ?thesis
      using messages_send_rejects[OF assms(2) True, of M user stored]
      by (simp only: route messages_send_ignores_body_from if_True simp_thms)
  next
    case False
    then have "truthy (b ''sessionId'')" "truthy (b ''to'')" "truthy (b ''ciphertext'')"
      "truthy (b ''iv'')" "is_number (b ''msgSeq'')"
      by simp_all
    from messages_send_accepts[OF assms(2) this, of M user stored] False
    show ?thesis
      by (simp only: route messages_send_ignores_body_from if_False simp_thms)
  qed
qed

theorem messages_send_checks_and_stamps_sender_witness:
  "authenticateToken toy_verify alice_headers = Inr alice
   \<and> messages_send_route toy_verify toy_mongoose
       \<lparr>req_headers = alice_headers,
        req_body = JObj [(''sessionId'', JStr ''s1''), (''to'', JStr ''bob''),
                         (''ciphertext'', JStr ''Y2lwaGVy''), (''iv'', JStr ''aXY=''),
                         (''msgSeq'', JStr ''1'')]\<rparr> docs0
     = (Error 400 ''sessionId, to, ciphertext, iv and numeric msgSeq are required'', docs0)
   \<and> messages_send_route toy_verify toy_mongoose
       \<lparr>req_headers = alice_headers,
        req_body = JObj [(''from'', JStr ''mallory''), (''sessionId'', JStr ''s1''),
                         (''to'', JStr ''bob''), (''ciphertext'', JStr ''Y2lwaGVy''),
                         (''iv'', JStr ''aXY=''), (''msgSeq'', JNum 1)]\<rparr> docs0
     = (Json 201 (JObj [(''message'', JStr ''Encrypted message stored'')]),
        docs0 @ [\<lparr>doc_id = ''65f0'', doc_sessionId = ''s1'', doc_from = ''alice'',
                   doc_to = ''bob'', doc_ciphertext = ''Y2lwaGVy'', doc_iv = ''aXY='',
                   doc_msgSeq = 1, doc_timestamp = 1700000000500,
                   doc_createdAt = 1700000000500, doc_updatedAt = 1700000000500\<rparr>])"
proof -
  let ?bad = "\<lparr>req_headers = alice_headers,
        req_body = JObj [(''sessionId'', JStr ''s1''), (''to'', JStr ''bob''),
                         (''ciphertext'', JStr ''Y2lwaGVy''), (''iv'', JStr ''aXY=''),
                         (''msgSeq'', JStr ''1'')]\<rparr>"
  have auth: "authenticateToken toy_verify alice_headers = Inr alice"
    by (simp add: authenticateToken_def alice_headers_def header_or_def toy_verify_def alice_def)
  then have auth': "authenticateToken toy_verify (req_headers ?bad) = Inr alice"
    by simp
  have d: "destructure (req_body ?bad)
             = Some (\<lambda>k. case map_of [(''sessionId'', JStr ''s1''), (''to'', JStr ''bob''),
                         (''ciphertext'', JStr ''Y2lwaGVy''), (''iv'', JStr ''aXY=''),
                         (''msgSeq'', JStr ''1'')] k of None \<Rightarrow> JUndefined | Some v \<Rightarrow> v)"
    by simp
  from messages_send_checks_and_stamps_sender[OF auth' d, of toy_mongoose docs0]
  have "messages_send_route toy_verify toy_mongoose ?bad docs0
     = (Error 400 ''sessionId, to, ciphertext, iv and numeric msgSeq are required'', docs0)"
    by simp
  moreover have "messages_send_route toy_verify toy_mongoose
       \<lparr>req_headers = alice_headers,
        req_body = JObj [(''from'', JStr ''mallory''), (''sessionId'', JStr ''s1''),
                         (''to'', JStr ''bob''), (''ciphertext'', JStr ''Y2lwaGVy''),
                         (''iv'', JStr ''aXY=''), (''msgSeq'', JNum 1)]\<rparr> docs0
     = (Json 201 (JObj [(''message'', JStr ''Encrypted message stored'')]),
        docs0 @ [\<lparr>doc_id = ''65f0'', doc_sessionId = ''s1'', doc_from = ''alice'',
                   doc_to = ''bob'', doc_ciphertext = ''Y2lwaGVy'', doc_iv = ''aXY='',
                   doc_msgSeq = 1, doc_timestamp = 1700000000500,
                   doc_createdAt = 1700000000500, doc_updatedAt = 1700000000500\<rparr>])"
    by (simp add: messages_send_route_def auth messages_send_def Message_save_def
        toy_mongoose_def alice_def Let_def)
  ultimately show ?thesis
    using auth by simp
qed



text \<open>
  C10. For a peer and a session id that are not empty, \<^verbatim>\<open>GET /messages/conversation\<close>
  returns the stored messages of that session between the authenticated user and the
  peer, in either direction, each exactly once, in ascending order of \<^verbatim>\<open>msgSeq\<close> and then
  of \<^verbatim>\<open>timestamp\<close>, each reduced to \<^verbatim>\<open>from\<close>, \<^verbatim>\<open>to\<close>, \<^verbatim>\<open>sessionId\<close>, \<^verbatim>\<open>ciphertext\<close>, \<^verbatim>\<open>iv\<close>,
  \<^verbatim>\<open>msgSeq\<close> and \<^verbatim>\<open>timestamp\<close>.
\<close>

theorem conversation_is_sorted_projection:
  assumes "peerUsername \<noteq> []" and "sessionId \<noteq> []"
  shows "\<exists>messages.
           messages_conversation user peerUsername sessionId stored
             = Json 200 (map safeMessage messages)
           \<and> mset messages
               = filter_mset
                   (\<lambda>m. doc_sessionId m = sessionId
                         \<and> (doc_from m = username user \<and> doc_to m = peerUsername
                            \<or> doc_from m = peerUsername \<and> doc_to m = username user))
                   (mset stored)
           \<and> sorted (map (\<lambda>m. (doc_msgSeq m, doc_timestamp m)) messages)
           \<and> map out_from (map safeMessage messages) = map doc_from messages
           \<and> map out_to (map safeMessage messages) = map doc_to messages
           \<and> map out_sessionId (map safeMessage messages) = map doc_sessionId messages
           \<and> map out_ciphertext (map safeMessage messages) = map doc_ciphertext messages
           \<and> map out_iv (map safeMessage messages) = map doc_iv messages
           \<and> map out_msgSeq (map safeMessage messages) = map doc_msgSeq messages
           \<and> map out_timestamp (map safeMessage messages) = map doc_timestamp messages"
proof -
  let ?ms = "Message_find_sorted (criteria (username user) peerUsername sessionId) stored"
  have "messages_conversation user peerUsername sessionId stored = Json 200 (map safeMessage ?ms)"
    by (rule conversation_docs[OF assms])
  moreover have "mset ?ms
      = filter_mset
          (\<lambda>m. doc_sessionId m = sessionId
                \<and> (doc_from m = username user \<and> doc_to m = peerUsername
                   \<or> doc_from m = peerUsername \<and> doc_to m = username user))
          (mset stored)"
    by (simp add: find_sorted_mset criteria_def[abs_def])
  moreover have "sorted (map (\<lambda>m. (doc_msgSeq m, doc_timestamp m)) ?ms)"
    by (rule find_sorted_sorted)
  ultimately show ?thesis
    by (intro exI[of _ ?ms]) (simp add: safeMessage_def comp_def)
qed

theorem conversation_is_sorted_projection_witness:
  "''bob'' \<noteq> [] \<and> ''s1'' \<noteq> []
   \<and> messages_conversation alice ''bob'' ''s1'' docs0
     = Json 200
         [\<lparr>out_from = ''bob'', out_to = ''alice'', out_sessionId = ''s1'',
           out_ciphertext = ''c3'', out_iv = ''i3'', out_msgSeq = 1, out_timestamp = 10\<rparr>,
          \<lparr>out_from = ''alice'', out_to = ''bob'', out_sessionId = ''s1'',
           out_ciphertext = ''c1'', out_iv = ''i1'', out_msgSeq = 1, out_timestamp = 30\<rparr>,
          \<lparr>out_from = ''bob'', out_to = ''alice'', out_sessionId = ''s1'',
           out_ciphertext = ''c2'', out_iv = ''i2'', out_msgSeq = 2, out_timestamp = 20\<rparr>]"
proof -
  have "''bob'' \<noteq> []" and "''s1'' \<noteq> []"
    by simp_all
  from conversation_is_sorted_projection[OF this, of alice docs0]
  obtain messages where "messages_conversation alice ''bob'' ''s1'' docs0
      = Json 200 (map safeMessage messages)"
    by blast
  moreover have "messages_conversation alice ''bob'' ''s1'' docs0
     = Json 200
         [\<lparr>out_from = ''bob'', out_to = ''alice'', out_sessionId = ''s1'',
           out_ciphertext = ''c3'', out_iv = ''i3'', out_msgSeq = 1, out_timestamp = 10\<rparr>,
          \<lparr>out_from = ''alice'', out_to = ''bob'', out_sessionId = ''s1'',
           out_ciphertext = ''c1'', out_iv = ''i1'', out_msgSeq = 1, out_timestamp = 30\<rparr>,
          \<lparr>out_from = ''bob'', out_to = ''alice'', out_sessionId = ''s1'',
           out_ciphertext = ''c2'', out_iv = ''i2'', out_msgSeq = 2, out_timestamp = 20\<rparr>]"
    by (simp add: messages_conversation_def Message_find_sorted_def criteria_def docs0_def
        alice_def safeMessage_def Let_def)
  ultimately show ?thesis
    by simp
qed

section \<open>Properties of the dashboard's inbox\<close>




lemma process_messages_append:
  "process_messages ops se ce kxContext (xs @ ys) w
   = and_then (process_messages ops se ce kxContext xs)
       (\<lambda>_. process_messages ops se ce kxContext ys) w"
  by (induction xs arbitrary: w)
     (auto simp: and_then_def done_with_def split: prod.splits sum.splits)





subsection \<open>Messages whose type goes with the role\<close>

text \<open>
  The loop decides by the type of the message and the role of the context alone. A
  \<^verbatim>\<open>KEY_RESP\<close> that reaches an initiator is handed to \<^verbatim>\<open>processKeyRespAndDeriveKey\<close> whatever
  session it names: either a step throws, and the loop ends there with the remaining
  messages unprocessed, or the context is overwritten with the key derived.
\<close>

lemma thrown_stops_the_loop:
  assumes "process_message ops se ce kxContext msg w = (Inl e, w')"
  shows "process_messages ops se ce kxContext (msg # rest) w = (Inl e, w')"
  using assms by (simp add: and_then_def)

lemma unrelated_ignores_sessionId:
  "unrelated (Some (c\<lparr>ctx_sessionId := s\<rparr>)) msg = unrelated (Some c) msg"
  by (simp add: unrelated_def has_role_def)

lemma KEY_RESP_is_processed_or_stops_the_loop:
  assumes "kx_messageType msg = JStr ''KEY_RESP''" and "ctx_role c = Initiator"
  shows "(\<exists>e w'. process_message ops se ce (Some c) msg w = (Inl e, w'))
         \<or> (\<exists>aesKey sessionId transcriptHash w'.
               process_message ops se ce (Some c) msg w = (Inr (), w')
               \<and> w_kxContext w'
                   = Some (c\<lparr>ctx_aesKey := Some aesKey, ctx_sessionId := sessionId,
                             ctx_transcriptHash := Some transcriptHash\<rparr>))"
proof -
  have pm: "process_message ops se ce (Some c) msg = on_KEY_RESP ops se ce c msg"
    using assms by (simp add: process_message_def has_role_def)
  show ?thesis
    unfolding pm on_KEY_RESP_def
    by (auto simp: and_then_def await_def addLog_def setKxContext_def kxAPI_sendMessage_def
        Let_def split: option.splits sum.splits prod.splits)
qed

subsection \<open>Claims\<close>





end
